theory Spec2Isabelle
  imports Complex_Main "HOL-Library.Log_Nat" "HOL-Library.Multiset"
begin

section \<open>Python values shared by the two notebooks\<close>

text \<open>
  The repository is two Jupyter notebooks, \<^verbatim>\<open>ridge_regression_demo.ipynb\<close> and the
  SGD notebook. Their own code is \<^verbatim>\<open>load_data\<close> (one version per notebook),
  \<^verbatim>\<open>array_equal\<close>, \<^verbatim>\<open>to_nparray\<close> and the cells that call the two libraries.

  Exceptions are values of \<open>error\<close>; a function that can raise returns \<open>error + 'a\<close>
  with \<open>Inl\<close> for the exception.

  The type \<open>'e\<close> of array elements is left open in the comparison helper, which accepts
  arrays of any dtype. The data loaders and the benchmark cells only move numbers
  around and hand them to the libraries; there the elements are real numbers.
\<close>

datatype error = ValueError | AttributeError | OverflowError | IndexError | KeyError | OSError

text \<open>
  A pandas (or cuDF) dataframe is the ordered list of its named columns, as the dict
  comprehension \<^verbatim>\<open>{'fea%d'%i: X[0:train_rows,i] for i in ...}\<close> builds it.
\<close>

type_synonym 'e table = "(string \<times> 'e list) list"

type_synonym frame = "real table"

definition frame_nrows :: "'e table \<Rightarrow> nat" where
  "frame_nrows f = (case f of [] \<Rightarrow> 0 | c # _ \<Rightarrow> length (snd c))"


text \<open>A numpy array is its shape and its buffer in C (row-major) order.\<close>

record 'e ndarray =
  shape :: "nat list"
  data :: "'e list"

text \<open>
  The objects that reach \<^verbatim>\<open>to_nparray\<close>. The five types it tests for have a
  constructor each. \<open>PyObject t r\<close> is an object of any other type \<open>t\<close>; \<open>r\<close> is what its
  \<^verbatim>\<open>ravel()\<close> method returns when the type has one (a pandas Series and the other
  numpy scalar types do, a Python list does not).
\<close>

datatype 'e pyobj =
    NdArray "'e ndarray"
  | PdDataFrame "'e table"
  | NpFloat64 'e
  | CudfDataFrame "'e table"
  | CudfSeries "'e list"
  | PyObject string "'e list option"

text \<open>
  A float64 value, as \<^verbatim>\<open>mean_squared_error\<close> returns one and as the threshold of
  \<^verbatim>\<open>array_equal\<close> is one, with the comparison \<^verbatim>\<open><\<close> of IEEE 754: nothing is below
  NaN and NaN is below nothing.
\<close>

datatype float64 = Finite real | PosInf | NegInf | NaN

fun float_less :: "float64 \<Rightarrow> float64 \<Rightarrow> bool" where
  "float_less (Finite a) (Finite b) = (a < b)"
| "float_less (Finite a) PosInf = True"
| "float_less NegInf (Finite b) = True"
| "float_less NegInf PosInf = True"
| "float_less _ _ = False"

section \<open>The comparison helper\<close>

definition frame_values :: "'e table \<Rightarrow> 'e ndarray" where
  \<comment> \<open>\<^verbatim>\<open>np.array(df)\<close> and \<^verbatim>\<open>df.values\<close>: a two-dimensional array, one row per row of the frame\<close>
  "frame_values f =
     \<lparr>shape = [frame_nrows f, length f],
      data = concat (map (\<lambda>r. map (\<lambda>c. snd c ! r) f) [0..<frame_nrows f])\<rparr>"

text \<open>
  \<^verbatim>\<open>
  def to_nparray(x):
      if isinstance(x,np.ndarray) or isinstance(x,pd.DataFrame):
          return np.array(x)
      elif isinstance(x,np.float64):
          return np.array([x])
      elif isinstance(x,cudf.DataFrame) or isinstance(x,cudf.Series):
          return x.to_pandas().values
      return x
  \<close>
\<close>

fun to_nparray :: "'e pyobj \<Rightarrow> 'e pyobj" where
  "to_nparray (NdArray a) = NdArray a"
| "to_nparray (PdDataFrame f) = NdArray (frame_values f)"
| "to_nparray (NpFloat64 v) = NdArray \<lparr>shape = [1], data = [v]\<rparr>"
| "to_nparray (CudfDataFrame f) = NdArray (frame_values f)"
| "to_nparray (CudfSeries xs) = NdArray \<lparr>shape = [length xs], data = xs\<rparr>"
| "to_nparray x = x"

fun ravel :: "'e pyobj \<Rightarrow> error + 'e list" where
  \<comment> \<open>the attribute lookup \<^verbatim>\<open>.ravel\<close> followed by the call; the dataframe and cuDF cases
      are never reached behind \<open>to_nparray\<close>\<close>
  "ravel (NdArray a) = Inr (data a)"
| "ravel (NpFloat64 v) = Inr [v]"
| "ravel (PyObject t r) = (case r of None \<Rightarrow> Inl AttributeError | Some xs \<Rightarrow> Inr xs)"
| "ravel _ = Inl AttributeError"

text \<open>
  The mean squared error of two lists of real numbers, in exact arithmetic.
  \<^verbatim>\<open>sklearn.metrics.mean_squared_error\<close> refuses empty input and arrays of different
  lengths. The benchmark cells below use this function for the library's.
\<close>

definition squared_error_sum :: "real list \<Rightarrow> real list \<Rightarrow> real" where
  "squared_error_sum xs ys = (\<Sum>p\<leftarrow>zip xs ys. (fst p - snd p)\<^sup>2)"

definition mean_squared_error :: "real list \<Rightarrow> real list \<Rightarrow> error + real" where
  "mean_squared_error xs ys =
     (if xs = [] \<or> ys = [] then Inl ValueError
      else if length xs \<noteq> length ys then Inl ValueError
      else Inr (squared_error_sum xs ys / real (length xs)))"

text \<open>
  \<^verbatim>\<open>
  def array_equal(a,b,threshold=2e-3,with_sign=True):
      a = to_nparray(a).ravel()
      b = to_nparray(b).ravel()
      if with_sign == False:
          a,b = np.abs(a),np.abs(b)
      error = mean_squared_error(a,b)
      res = error<threshold
      return res
  \<close>
  The arrays can have any dtype, so what numpy's \<^verbatim>\<open>np.abs\<close> and sklearn's
  \<^verbatim>\<open>mean_squared_error\<close> do with them (wrapping integer arithmetic, float64
  rounding, the refusal of NaN and infinity) is theirs: both are parameters, \<open>np_abs\<close>
  and \<open>mse\<close>. \<open>compared_arrays\<close> is the part of the function before the call of
  \<^verbatim>\<open>mean_squared_error\<close>: it gives the two arrays that are handed to it.
\<close>

definition compared_arrays ::
  "('e list \<Rightarrow> error + 'e list) \<Rightarrow> 'e pyobj \<Rightarrow> 'e pyobj \<Rightarrow> bool \<Rightarrow> error + 'e list \<times> 'e list" where
  "compared_arrays np_abs a b with_sign =
     (case ravel (to_nparray a) of
        Inl e \<Rightarrow> Inl e
      | Inr a1 \<Rightarrow>
          (case ravel (to_nparray b) of
             Inl e \<Rightarrow> Inl e
           | Inr b1 \<Rightarrow>
               (if with_sign = False
                then (case np_abs a1 of
                        Inl e \<Rightarrow> Inl e
                      | Inr a2 \<Rightarrow>
                          (case np_abs b1 of Inl e \<Rightarrow> Inl e | Inr b2 \<Rightarrow> Inr (a2, b2)))
                else Inr (a1, b1))))"

definition array_equal ::
  "('e list \<Rightarrow> error + 'e list) \<Rightarrow> ('e list \<Rightarrow> 'e list \<Rightarrow> error + float64)
     \<Rightarrow> 'e pyobj \<Rightarrow> 'e pyobj \<Rightarrow> float64 \<Rightarrow> bool \<Rightarrow> error + bool" where
  "array_equal np_abs mse a b threshold with_sign =
     (case compared_arrays np_abs a b with_sign of
        Inl e \<Rightarrow> Inl e
      | Inr (a2, b2) \<Rightarrow>
          (case mse a2 b2 of
             Inl e \<Rightarrow> Inl e
           | Inr err \<Rightarrow> Inr (float_less err threshold)))"

definition default_threshold :: float64 where
  \<comment> \<open>the double that the literal \<^verbatim>\<open>2e-3\<close> denotes\<close>
  "default_threshold = Finite (1152921504606847 / 2 ^ 59)"

definition array_equal_default ::
  "('e list \<Rightarrow> error + 'e list) \<Rightarrow> ('e list \<Rightarrow> 'e list \<Rightarrow> error + float64)
     \<Rightarrow> 'e pyobj \<Rightarrow> 'e pyobj \<Rightarrow> error + bool" where
  \<comment> \<open>the call \<^verbatim>\<open>array_equal(a, b)\<close> with both defaults\<close>
  "array_equal_default np_abs mse a b = array_equal np_abs mse a b default_threshold True"

text \<open>
  Two dtypes of numpy, for arrays that hold 64-bit integers or doubles: an element is an
  int64, a number in \<open>[-2^63, 2^63)\<close>, or a float64. On an int64 \<^verbatim>\<open>np.abs\<close> negates
  with wrap-around, so the least int64 is its own result. \<open>exact_mse\<close> is the mean
  squared error of the values in exact arithmetic.
\<close>

datatype scalar = Int64 int | Float64 real

definition wrap64 :: "int \<Rightarrow> int" where
  "wrap64 v = (v + 2 ^ 63) mod 2 ^ 64 - 2 ^ 63"

fun scalar_value :: "scalar \<Rightarrow> real" where
  "scalar_value (Int64 v) = real_of_int v"
| "scalar_value (Float64 r) = r"

fun scalar_abs :: "scalar \<Rightarrow> scalar" where
  "scalar_abs (Int64 v) = Int64 (wrap64 \<bar>v\<bar>)"
| "scalar_abs (Float64 r) = Float64 \<bar>r\<bar>"

definition np_abs_scalar :: "scalar list \<Rightarrow> error + scalar list" where
  "np_abs_scalar xs = Inr (map scalar_abs xs)"

definition np_abs_real :: "real list \<Rightarrow> error + real list" where
  "np_abs_real xs = Inr (map abs xs)"

definition exact_mse :: "('e \<Rightarrow> real) \<Rightarrow> 'e list \<Rightarrow> 'e list \<Rightarrow> error + float64" where
  "exact_mse val xs ys =
     (case mean_squared_error (map val xs) (map val ys) of
        Inl e \<Rightarrow> Inl e
      | Inr v \<Rightarrow> Inr (Finite v))"

definition is_converted_type :: "'e pyobj \<Rightarrow> bool" where
  \<comment> \<open>the five \<^verbatim>\<open>isinstance\<close> tests of \<open>to_nparray\<close>\<close>
  "is_converted_type x =
     (case x of PyObject t r \<Rightarrow> False | _ \<Rightarrow> True)"



section \<open>Arrays, random numbers and files\<close>

text \<open>
  A two-dimensional numpy array, as \<open>load_data\<close> uses it: its shape and the entry at
  each row and column index.
\<close>

record matrix =
  mat_rows :: nat
  mat_cols :: nat
  mat_at :: "nat \<Rightarrow> nat \<Rightarrow> real"

definition slice_index :: "nat \<Rightarrow> int \<Rightarrow> nat" where
  \<comment> \<open>a slice bound \<open>k\<close> on an axis of length \<open>len\<close>: negative bounds count from the end,
      and every bound is clipped to the axis\<close>
  "slice_index len k = (if k < 0 then nat (int len + k) else min (nat k) len)"

definition select_cols :: "matrix \<Rightarrow> nat list \<Rightarrow> matrix" where
  \<comment> \<open>\<^verbatim>\<open>X[:, js]\<close> for a list of column indices\<close>
  "select_cols X js =
     \<lparr>mat_rows = mat_rows X, mat_cols = length js, mat_at = (\<lambda>r c. mat_at X r (js ! c))\<rparr>"

definition col_slice :: "matrix \<Rightarrow> int \<Rightarrow> int \<Rightarrow> matrix" where
  \<comment> \<open>\<^verbatim>\<open>X[:, a:b]\<close>\<close>
  "col_slice X a b =
     select_cols X [slice_index (mat_cols X) a..<slice_index (mat_cols X) b]"

definition fancy_rows :: "matrix \<Rightarrow> int list \<Rightarrow> error + matrix" where
  \<comment> \<open>\<^verbatim>\<open>X[rindices]\<close> for an array of row indices: an index outside the axis raises,
      a negative one counts from the end\<close>
  "fancy_rows X ix =
     (if list_all (\<lambda>i. - int (mat_rows X) \<le> i \<and> i < int (mat_rows X)) ix
      then Inr \<lparr>mat_rows = length ix, mat_cols = mat_cols X,
                mat_at = (\<lambda>r c. mat_at X (nat (if ix ! r < 0 then int (mat_rows X) + ix ! r
                                                  else ix ! r)) c)\<rparr>
      else Inl IndexError)"

definition column :: "matrix \<Rightarrow> nat \<Rightarrow> nat \<Rightarrow> nat \<Rightarrow> real list" where
  \<comment> \<open>\<^verbatim>\<open>X[a:b, i]\<close> with the bounds already clipped\<close>
  "column X a b i = map (\<lambda>r. mat_at X r i) [a..<b]"

text \<open>The column names \<^verbatim>\<open>'fea%d' % i\<close>.\<close>

function string_of_nat :: "nat \<Rightarrow> string" where
  "string_of_nat n =
     (if n < 10 then [''0123456789'' ! n]
      else string_of_nat (n div 10) @ [''0123456789'' ! (n mod 10)])"
  by pat_completeness auto
termination
  by (relation "measure id") auto

declare string_of_nat.simps [simp del]

definition fea :: "nat \<Rightarrow> string" where
  "fea i = ''fea'' @ string_of_nat i"

definition frame_of :: "matrix \<Rightarrow> nat \<Rightarrow> nat \<Rightarrow> frame" where
  \<comment> \<open>\<^verbatim>\<open>pd.DataFrame({'fea%d'%i: X[a:b,i] for i in range(X.shape[1])})\<close>; the columns
      have one length, so the constructor does not raise\<close>
  "frame_of X a b = map (\<lambda>i. (fea i, column X a b i)) [0..<mat_cols X]"

text \<open>
  The global numpy random generator is the stream of its raw draws. A call consumes a
  prefix of the stream, and the next call sees the rest.

  numpy also raises when an array is too big for the memory or the index type of the
  machine. These limits are not part of \<open>rand\<close> and \<open>randint\<close>, so the theorems below
  say what holds when a loader has returned, and derive no return from these two.
\<close>

type_synonym rng = "nat \<Rightarrow> nat"

definition advance :: "rng \<Rightarrow> nat \<Rightarrow> rng" where
  "advance g k = (\<lambda>i. g (i + k))"

definition randint :: "rng \<Rightarrow> int \<Rightarrow> int \<Rightarrow> int \<Rightarrow> error + int list" where
  \<comment> \<open>\<^verbatim>\<open>np.random.randint(low, high, size)\<close>: \<open>k\<close> integers in \<open>[low, high)\<close>; a
      negative size raises, and so does an empty range unless no sample is taken\<close>
  "randint g low high k =
     (if k < 0 then Inl ValueError
      else if k = 0 then Inr []
      else if high \<le> low then Inl ValueError
      else Inr (map (\<lambda>i. low + int (g i) mod (high - low)) [0..<nat k]))"

definition rand :: "rng \<Rightarrow> int \<Rightarrow> int \<Rightarrow> error + matrix" where
  \<comment> \<open>\<^verbatim>\<open>np.random.rand(d0, d1)\<close>: uniform numbers in \<open>[0, 1)\<close>; a negative
      dimension raises\<close>
  "rand g d0 d1 =
     (if d0 < 0 \<or> d1 < 0 then Inl ValueError
      else Inr \<lparr>mat_rows = nat d0, mat_cols = nat d1,
                mat_at = (\<lambda>r c. real (g (r * nat d1 + c) mod 2 ^ 53) / 2 ^ 53)\<rparr>)"

definition column_matrix :: "int list \<Rightarrow> matrix" where
  \<comment> \<open>an array of shape \<open>(n, 1)\<close> holding the given integers\<close>
  "column_matrix xs =
     \<lparr>mat_rows = length xs, mat_cols = 1, mat_at = (\<lambda>r c. real_of_int (xs ! r))\<rparr>"

text \<open>
  The file system maps a path to what is stored there: a gzip-compressed \<^verbatim>\<open>.npy\<close>
  file holding a two-dimensional array, or anything else (which \<^verbatim>\<open>gzip.open\<close>
  and \<^verbatim>\<open>np.load\<close> refuse).
\<close>

datatype fs_entry = NpyGz matrix | OtherFile

record world =
  files :: "string \<Rightarrow> fs_entry option"
  rng_state :: rng

datatype event =
    Print string
  | GzipOpen string
  | PrintShape string nat nat
  | PrintFloat real

definition path_exists :: "world \<Rightarrow> string \<Rightarrow> bool" where
  "path_exists w p = (files w p \<noteq> None)"

definition np_load_gz :: "world \<Rightarrow> string \<Rightarrow> error + matrix" where
  "np_load_gz w p = (case files w p of Some (NpyGz X) \<Rightarrow> Inr X | _ \<Rightarrow> Inl OSError)"

definition cached_default :: string where
  "cached_default = ''data/mortgage.npy.gz''"

subsection \<open>The number of training rows\<close>

text \<open>
  \<^verbatim>\<open>train_rows = int(nrows*0.8)\<close> converts \<open>nrows\<close> to a double, multiplies by the
  double nearest to 0.8, which is \<open>3602879701896397 / 2^52\<close>, and truncates. A
  positive double is \<open>m * 2^e\<close> with \<open>m\<close> of at most 53 bits; both steps round to
  nearest, ties to even.
\<close>

definition round_half_even :: "int \<Rightarrow> nat \<Rightarrow> int" where
  \<comment> \<open>\<open>n / 2^s\<close> rounded to the nearest integer, ties to the even one\<close>
  "round_half_even n s =
     (let q = n div 2 ^ s; r = n mod 2 ^ s
      in if 2 * r > 2 ^ s \<or> (2 * r = 2 ^ s \<and> odd q) then q + 1 else q)"

definition round_double :: "int \<Rightarrow> int \<Rightarrow> int \<times> int" where
  \<comment> \<open>\<open>m * 2^e\<close> rounded to 53 significant bits\<close>
  "round_double m e =
     (if bitlen m \<le> 53 then (m, e)
      else (round_half_even m (nat (bitlen m - 53)), e + (bitlen m - 53)))"

definition train_rows :: "int \<Rightarrow> error + int" where
  "train_rows nrows =
     (let (m, e) = round_double \<bar>nrows\<bar> 0
      in if 2 ^ 1024 \<le> m * 2 ^ nat e then Inl OverflowError
         else
           (let (m2, e2) = round_double (m * 3602879701896397) (e - 52);
                t = (if 0 \<le> e2 then m2 * 2 ^ nat e2 else m2 div 2 ^ nat (- e2))
            in Inr (sgn nrows * t)))"

section \<open>The data loaders\<close>

text \<open>
  The cached branch is the same in both notebooks:
  \<^verbatim>\<open>
        with gzip.open(cached) as f:
            X = np.load(f)
        # the 4th column is 'adj_remaining_months_to_maturity'
        # used as the label
        X = X[:,[i for i in range(X.shape[1]) if i!=4]]
        y = X[:,4:5]
        rindices = np.random.randint(0,X.shape[0]-1,nrows)
        X = X[rindices,:ncols]
        y = y[rindices]
  \<close>
\<close>

definition mortgage_data :: "world \<Rightarrow> string \<Rightarrow> int \<Rightarrow> int \<Rightarrow> error + matrix \<times> matrix" where
  "mortgage_data w cached nrows ncols =
     (case np_load_gz w cached of
        Inl e \<Rightarrow> Inl e
      | Inr X0 \<Rightarrow>
          (let X1 = select_cols X0 (filter (\<lambda>i. i \<noteq> 4) [0..<mat_cols X0]);
               y1 = col_slice X1 4 5
           in case randint (rng_state w) 0 (int (mat_rows X1) - 1) nrows of
                Inl e \<Rightarrow> Inl e
              | Inr rindices \<Rightarrow>
                  (case fancy_rows X1 rindices of
                     Inl e \<Rightarrow> Inl e
                   | Inr X2 \<Rightarrow>
                       (case fancy_rows y1 rindices of
                          Inl e \<Rightarrow> Inl e
                        | Inr y \<Rightarrow> Inr (col_slice X2 0 ncols, y)))))"

text \<open>
  The SGD notebook:
  \<^verbatim>\<open>
  def load_data(nrows, ncols, cached = 'data/mortgage.npy.gz'):
      if os.path.exists(cached):
          print('use mortgage data')
          ...
      else:
          # create a random dataset
          print('use random data')
          X = np.random.rand(nrows,ncols)
          y = np.random.randint(0,10,size=(nrows,1))
      train_rows = int(nrows*0.8)
      df_X_train = pd.DataFrame({'fea%d'%i:X[0:train_rows,i] for i in range(X.shape[1])})
      df_X_test = pd.DataFrame({'fea%d'%i:X[train_rows:,i] for i in range(X.shape[1])})
      df_y_train = pd.DataFrame({'fea%d'%i:y[0:train_rows,i] for i in range(y.shape[1])})
      df_y_test = pd.DataFrame({'fea%d'%i:y[train_rows:,i] for i in range(y.shape[1])})
      return df_X_train, df_X_test, df_y_train, df_y_test
  \<close>
  \<open>dataset_sgd\<close> is the \<^verbatim>\<open>if\<close> statement, which leaves the dataset in \<open>X\<close> and \<open>y\<close>;
  the first component of a result is what was printed and opened on the way.
\<close>

definition dataset_sgd ::
  "world \<Rightarrow> int \<Rightarrow> int \<Rightarrow> string \<Rightarrow> event list \<times> (error + matrix \<times> matrix)" where
  "dataset_sgd w nrows ncols cached =
     (if path_exists w cached
      then ([Print ''use mortgage data'', GzipOpen cached], mortgage_data w cached nrows ncols)
      else ([Print ''use random data''],
            case rand (rng_state w) nrows ncols of
              Inl e \<Rightarrow> Inl e
            | Inr X \<Rightarrow>
                (case randint (advance (rng_state w) (mat_rows X * mat_cols X)) 0 10 nrows of
                   Inl e \<Rightarrow> Inl e
                 | Inr ys \<Rightarrow> Inr (X, column_matrix ys))))"

definition load_data_sgd ::
  "world \<Rightarrow> int \<Rightarrow> int \<Rightarrow> string \<Rightarrow> event list \<times> (error + frame \<times> frame \<times> frame \<times> frame)" where
  "load_data_sgd w nrows ncols cached =
     (fst (dataset_sgd w nrows ncols cached),
      case snd (dataset_sgd w nrows ncols cached) of
        Inl e \<Rightarrow> Inl e
      | Inr (X, y) \<Rightarrow>
          (case train_rows nrows of
             Inl e \<Rightarrow> Inl e
           | Inr t \<Rightarrow>
               Inr (frame_of X 0 (slice_index (mat_rows X) t),
                    frame_of X (slice_index (mat_rows X) t) (mat_rows X),
                    frame_of y 0 (slice_index (mat_rows y) t),
                    frame_of y (slice_index (mat_rows y) t) (mat_rows y))))"

text \<open>
  \<^verbatim>\<open>sklearn.datasets.make_regression\<close> belongs to the library. Of its result only
  the documented shape is fixed here: \<open>X\<close> has shape \<open>(n_samples, n_features)\<close>, and \<open>y\<close>,
  which the library squeezes before returning it, is a one-dimensional array of
  \<open>n_samples\<close> labels, except that it is a 0-d array when \<open>n_samples\<close> is 1. The numbers
  come from \<open>gen\<close>, a function of the arguments of the call, the seed \<open>random_state\<close>
  among them.

  So the labels of the ridge loader are a two-dimensional array in the cached branch,
  and a one-dimensional or a 0-d one in the other.
\<close>

datatype labels = Labels2D matrix | Labels1D "real list" | Labels0D real

type_synonym generator =
  "int \<Rightarrow> int \<Rightarrow> int \<Rightarrow> int \<Rightarrow> error + (nat \<Rightarrow> nat \<Rightarrow> real) \<times> (nat \<Rightarrow> real)"

definition make_regression ::
  "generator \<Rightarrow> int \<Rightarrow> int \<Rightarrow> int \<Rightarrow> int \<Rightarrow> error + matrix \<times> labels" where
  "make_regression gen n_samples n_features n_informative random_state =
     (if n_samples < 0 \<or> n_features < 0 then Inl ValueError
      else case gen n_samples n_features n_informative random_state of
             Inl e \<Rightarrow> Inl e
           | Inr (a, b) \<Rightarrow>
               Inr (\<lparr>mat_rows = nat n_samples, mat_cols = nat n_features, mat_at = a\<rparr>,
                    if n_samples = 1 then Labels0D (b 0)
                    else Labels1D (map b [0..<nat n_samples])))"

text \<open>
  The ridge notebook:
  \<^verbatim>\<open>
  def load_data(nrows, ncols, cached = 'data/mortgage.npy.gz'):
      train_rows = int(nrows*0.8)
      if os.path.exists(cached):
          print('use mortgage data')
          ...
          df_y_train = pd.DataFrame({'fea%d'%i:y[0:train_rows,i] for i in range(y.shape[1])})
          df_y_test = pd.DataFrame({'fea%d'%i:y[train_rows:,i] for i in range(y.shape[1])})
      else:
          print('use random data')
          # create a random regression dataset
          X,y = make_regression(n_samples=nrows,n_features=ncols,n_informative=ncols, random_state=0)
          df_y_train = pd.DataFrame({'fea0':y[0:train_rows,]})
          df_y_test = pd.DataFrame({'fea0':y[train_rows:,]})

      df_X_train = pd.DataFrame({'fea%d'%i:X[0:train_rows,i] for i in range(X.shape[1])})
      df_X_test = pd.DataFrame({'fea%d'%i:X[train_rows:,i] for i in range(X.shape[1])})

      return df_X_train, df_X_test, df_y_train, df_y_test
  \<close>
  Slicing a 0-d array, as \<^verbatim>\<open>y[0:train_rows,]\<close> does, raises IndexError.
\<close>

definition dataset_ridge ::
  "generator \<Rightarrow> world \<Rightarrow> int \<Rightarrow> int \<Rightarrow> string \<Rightarrow> event list \<times> (error + matrix \<times> labels)" where
  "dataset_ridge gen w nrows ncols cached =
     (if path_exists w cached
      then ([Print ''use mortgage data'', GzipOpen cached],
            case mortgage_data w cached nrows ncols of
              Inl e \<Rightarrow> Inl e
            | Inr (X, y) \<Rightarrow> Inr (X, Labels2D y))
      else ([Print ''use random data''], make_regression gen nrows ncols ncols 0))"

fun label_rows :: "labels \<Rightarrow> nat" where
  \<comment> \<open>the length of the first axis; a 0-d array has none, and is never sliced\<close>
  "label_rows (Labels2D y) = mat_rows y"
| "label_rows (Labels1D ys) = length ys"
| "label_rows (Labels0D v) = 0"

fun labels_frame :: "labels \<Rightarrow> nat \<Rightarrow> nat \<Rightarrow> error + frame" where
  \<comment> \<open>the table of the label rows \<open>a..<b\<close>:
      \<^verbatim>\<open>pd.DataFrame({'fea%d'%i:y[a:b,i] for i in range(y.shape[1])})\<close> in the cached
      branch, \<^verbatim>\<open>pd.DataFrame({'fea0':y[a:b,]})\<close> in the other\<close>
  "labels_frame (Labels2D y) a b = Inr (frame_of y a b)"
| "labels_frame (Labels1D ys) a b = Inr [(''fea0'', take (b - a) (drop a ys))]"
| "labels_frame (Labels0D v) a b = Inl IndexError"

definition load_data_ridge ::
  "generator \<Rightarrow> world \<Rightarrow> int \<Rightarrow> int \<Rightarrow> string
     \<Rightarrow> event list \<times> (error + frame \<times> frame \<times> frame \<times> frame)" where
  "load_data_ridge gen w nrows ncols cached =
     (case train_rows nrows of
        Inl e \<Rightarrow> ([], Inl e)
      | Inr t \<Rightarrow>
          (fst (dataset_ridge gen w nrows ncols cached),
           case snd (dataset_ridge gen w nrows ncols cached) of
             Inl e \<Rightarrow> Inl e
           | Inr (X, y) \<Rightarrow>
               (case labels_frame y 0 (slice_index (label_rows y) t) of
                  Inl e \<Rightarrow> Inl e
                | Inr df_y_train \<Rightarrow>
                    (case labels_frame y (slice_index (label_rows y) t) (label_rows y) of
                       Inl e \<Rightarrow> Inl e
                     | Inr df_y_test \<Rightarrow>
                         Inr (frame_of X 0 (slice_index (mat_rows X) t),
                              frame_of X (slice_index (mat_rows X) t) (mat_rows X),
                              df_y_train, df_y_test)))))"

section \<open>The benchmark cells\<close>

subsection \<open>Hyperparameters\<close>

text \<open>
  The keyword arguments of a constructor call, in the order written. The SGD notebook
  sets
  \<^verbatim>\<open>
  learning_rate = 'adaptive'
  datatype = np.float32
  penalty = 'elasticnet'
  loss = 'squared_loss'
  iterations = 10
  \<close>
  and calls
  \<^verbatim>\<open>
  sk_sgd = SGDRegressor(learning_rate=learning_rate, eta0=0.07,
                         max_iter=iterations, tol=0.0, fit_intercept=True,
                         penalty=penalty, loss=loss)
  cu_sgd = cumlSGD(learning_rate=learning_rate, eta0=0.07, epochs=iterations, #epochs == n_iter
                   batch_size=512,
                   tol=0.0, penalty=penalty, loss=loss)
  \<close>
  The ridge notebook calls
  \<^verbatim>\<open>
  skridge = skRidge(fit_intercept=False,
                    normalize=True, alpha=0.1)
  curidge = cuRidge(fit_intercept=False,
                    normalize=True,
                    solver='svd', alpha=0.1)
  \<close>
\<close>

datatype pyval = PyStr string | PyFloat real | PyInt int | PyBool bool

type_synonym kwargs = "(string \<times> pyval) list"

definition learning_rate :: pyval where
  "learning_rate = PyStr ''adaptive''"

definition penalty :: pyval where
  "penalty = PyStr ''elasticnet''"

definition loss :: pyval where
  "loss = PyStr ''squared_loss''"

definition iterations :: pyval where
  "iterations = PyInt 10"

definition sk_sgd_kwargs :: kwargs where
  "sk_sgd_kwargs =
     [(''learning_rate'', learning_rate), (''eta0'', PyFloat (7 / 100)),
      (''max_iter'', iterations), (''tol'', PyFloat 0), (''fit_intercept'', PyBool True),
      (''penalty'', penalty), (''loss'', loss)]"

definition cu_sgd_kwargs :: kwargs where
  "cu_sgd_kwargs =
     [(''learning_rate'', learning_rate), (''eta0'', PyFloat (7 / 100)),
      (''epochs'', iterations), (''batch_size'', PyInt 512), (''tol'', PyFloat 0),
      (''penalty'', penalty), (''loss'', loss)]"

definition skridge_kwargs :: kwargs where
  "skridge_kwargs =
     [(''fit_intercept'', PyBool False), (''normalize'', PyBool True),
      (''alpha'', PyFloat (1 / 10))]"

definition curidge_kwargs :: kwargs where
  "curidge_kwargs =
     [(''fit_intercept'', PyBool False), (''normalize'', PyBool True),
      (''solver'', PyStr ''svd''), (''alpha'', PyFloat (1 / 10))]"

text \<open>
  The defaults of the cuML constructors, as the first cell of each notebook lists them.
  The ridge cell gives no default for \<open>alpha\<close>.
\<close>

definition cuml_sgd_defaults :: kwargs where
  "cuml_sgd_defaults =
     [(''loss'', PyStr ''squared_loss''), (''penalty'', PyStr ''none''),
      (''alpha'', PyFloat (1 / 10000)), (''fit_intercept'', PyBool True),
      (''epochs'', PyInt 1000), (''tol'', PyFloat (1 / 1000)), (''shuffle'', PyBool True),
      (''eta0'', PyFloat 0), (''power_t'', PyFloat (1 / 2)),
      (''learning_rate'', PyStr ''constant''), (''n_iter_no_change'', PyInt 5)]"

definition cuml_ridge_defaults :: kwargs where
  "cuml_ridge_defaults =
     [(''solver'', PyStr ''eig''), (''fit_intercept'', PyBool True),
      (''normalize'', PyBool False)]"

text \<open>
  The notebooks do not say what the sklearn constructors default to. For the four
  parameters that the ridge cell of cuML names, the signature of
  \<^verbatim>\<open>sklearn.linear_model.Ridge\<close> in the library's own documentation is
  \<^verbatim>\<open>Ridge(alpha=1.0, fit_intercept=True, normalize=False, ..., solver='auto', ...)\<close>.
\<close>

definition sklearn_ridge_defaults :: kwargs where
  "sklearn_ridge_defaults =
     [(''alpha'', PyFloat 1), (''fit_intercept'', PyBool True),
      (''normalize'', PyBool False), (''solver'', PyStr ''auto'')]"

definition effective :: "kwargs \<Rightarrow> kwargs \<Rightarrow> string \<Rightarrow> pyval option" where
  \<comment> \<open>the value a parameter has in a call: the one passed, else the default\<close>
  "effective args defaults p =
     (case map_of args p of Some v \<Rightarrow> Some v | None \<Rightarrow> map_of defaults p)"

definition passed_to_both :: "kwargs \<Rightarrow> kwargs \<Rightarrow> string list" where
  "passed_to_both a b = filter (\<lambda>p. p \<in> set (map fst b)) (map fst a)"

subsection \<open>The cells that fit, predict and compare\<close>











section \<open>Example inputs\<close>

text \<open>
  Concrete inputs, used where a theorem below is applied to one: a cached array of
  three rows and seven columns whose entry at row \<open>r\<close> and column \<open>c\<close> is \<open>10 r + c\<close>, a
  cached array of a single row, a file system without the cached file, and a generator
  whose features are \<open>r + c\<close> and whose labels are \<open>r\<close>.
\<close>

definition example_array :: matrix where
  "example_array = \<lparr>mat_rows = 3, mat_cols = 7, mat_at = (\<lambda>r c. real (10 * r + c))\<rparr>"

definition world_cached :: world where
  "world_cached =
     \<lparr>files = (\<lambda>p. if p = cached_default then Some (NpyGz example_array) else None),
      rng_state = (\<lambda>i. i)\<rparr>"


definition world_empty :: world where
  "world_empty = \<lparr>files = (\<lambda>p. None), rng_state = (\<lambda>i. if i < 5 then 0 else i)\<rparr>"

definition example_gen :: generator where
  "example_gen = (\<lambda>n f i s. Inr (\<lambda>r c. real (r + c), \<lambda>r. real r))"


section \<open>Properties of the comparison helper\<close>






text \<open>
  C9 (as amended). An input of any other type comes back from \<open>to_nparray\<close> unchanged,
  and \<open>array_equal\<close> then calls \<^verbatim>\<open>.ravel()\<close> on the object itself: when the object
  has no such attribute (a Python list), the call raises AttributeError before anything
  is compared.
\<close>

theorem to_nparray_other_type:
  assumes "\<not> is_converted_type x"
  shows "to_nparray x = x
         \<and> (ravel x = Inl AttributeError \<longrightarrow>
              array_equal np_abs mse x b threshold with_sign = Inl AttributeError)"
  using assms
  by (cases x) (simp_all add: is_converted_type_def array_equal_def compared_arrays_def)

theorem to_nparray_other_type_witness:
  "\<not> is_converted_type (PyObject ''list'' None :: real pyobj)
   \<and> to_nparray (PyObject ''list'' None :: real pyobj) = PyObject ''list'' None
   \<and> ravel (PyObject ''list'' None :: real pyobj) = Inl AttributeError
   \<and> array_equal np_abs_real (exact_mse (\<lambda>v. v)) (PyObject ''list'' None) (NpFloat64 1)
        default_threshold True = Inl AttributeError"
proof -
  have h: "\<not> is_converted_type (PyObject ''list'' None :: real pyobj)"
    by (simp add: is_converted_type_def)
  have r: "ravel (PyObject ''list'' None :: real pyobj) = Inl AttributeError" by simp
  from to_nparray_other_type
    [OF h, of np_abs_real "exact_mse (\<lambda>v. v)" "NpFloat64 1" default_threshold True] h r
  show ?thesis by blast
qed

text \<open>
  The claim as written fails for an object of another type that does have a
  \<^verbatim>\<open>ravel()\<close> method, such as a pandas Series: nothing is raised and the comparison
  is made.
\<close>

theorem array_equal_other_type_counterexample:
  "\<not> is_converted_type (PyObject ''pandas.Series'' (Some [1, 2 :: real]))
   \<and> array_equal np_abs_real (exact_mse (\<lambda>v. v)) (PyObject ''pandas.Series'' (Some [1, 2]))
        (PyObject ''pandas.Series'' (Some [1, 2])) default_threshold True = Inr True"
  by (simp add: is_converted_type_def array_equal_def compared_arrays_def exact_mse_def
      mean_squared_error_def squared_error_sum_def default_threshold_def)

lemma scalar_abs_int64:
  assumes "- (2 ^ 63) < v" and "v < 2 ^ 63"
  shows "scalar_value (scalar_abs (Int64 v)) = \<bar>real_of_int v\<bar>"
proof -
  have "0 \<le> \<bar>v\<bar> + 2 ^ 63" and "\<bar>v\<bar> + 2 ^ 63 < 2 ^ 64" using assms by simp_all
  then have "(\<bar>v\<bar> + 2 ^ 63) mod 2 ^ 64 = \<bar>v\<bar> + 2 ^ 63" by (rule mod_pos_pos_trivial)
  then show ?thesis by (simp add: wrap64_def)
qed

lemma scalar_abs_least_int64: "scalar_abs (Int64 (- (2 ^ 63))) = Int64 (- (2 ^ 63))"
  by (simp add: wrap64_def)

text \<open>
  C3 (as amended). When both inputs convert and flatten, \<open>array_equal\<close> hands the two
  flattened arrays to \<^verbatim>\<open>mean_squared_error\<close>, after \<^verbatim>\<open>np.abs\<close> on each when
  \<open>with_sign\<close> is \<open>False\<close>, and returns whether the float64 that comes back is strictly
  below the threshold, 2e-3 when none is given: it returns \<open>True\<close> exactly when
  \<^verbatim>\<open>mean_squared_error\<close> returns a value below the threshold, and raises what
  \<^verbatim>\<open>np.abs\<close> or \<^verbatim>\<open>mean_squared_error\<close> raises. \<^verbatim>\<open>np.abs\<close> is the
  absolute value on float64 and on every int64 but the least one, \<open>-2^63\<close>, which it
  leaves as it is.
\<close>

theorem array_equal_iff_mse:
  assumes "ravel (to_nparray a) = Inr xs" and "ravel (to_nparray b) = Inr ys"
  shows "array_equal np_abs mse a b threshold True
           = (case mse xs ys of
                Inl e \<Rightarrow> Inl e
              | Inr err \<Rightarrow> Inr (float_less err threshold))
         \<and> array_equal np_abs mse a b threshold False
           = (case np_abs xs of
                Inl e \<Rightarrow> Inl e
              | Inr xs' \<Rightarrow>
                  (case np_abs ys of
                     Inl e \<Rightarrow> Inl e
                   | Inr ys' \<Rightarrow>
                       (case mse xs' ys' of
                          Inl e \<Rightarrow> Inl e
                        | Inr err \<Rightarrow> Inr (float_less err threshold))))
         \<and> array_equal_default np_abs mse a b
           = (case mse xs ys of
                Inl e \<Rightarrow> Inl e
              | Inr err \<Rightarrow> Inr (float_less err default_threshold))
         \<and> (array_equal np_abs mse a b threshold True = Inr True
              \<longleftrightarrow> (\<exists>err. mse xs ys = Inr err \<and> float_less err threshold))
         \<and> (\<forall>v. - (2 ^ 63) < v \<and> v < 2 ^ 63
                \<longrightarrow> scalar_value (scalar_abs (Int64 v)) = \<bar>real_of_int v\<bar>)
         \<and> scalar_abs (Int64 (- (2 ^ 63))) = Int64 (- (2 ^ 63))
         \<and> (\<forall>r. scalar_abs (Float64 r) = Float64 \<bar>r\<bar>)"
proof -
  have t: "array_equal np_abs mse a b threshold True
           = (case mse xs ys of
                Inl e \<Rightarrow> Inl e
              | Inr err \<Rightarrow> Inr (float_less err threshold))" for threshold
    using assms by (simp add: array_equal_def compared_arrays_def)
  have f: "array_equal np_abs mse a b threshold False
           = (case np_abs xs of
                Inl e \<Rightarrow> Inl e
              | Inr xs' \<Rightarrow>
                  (case np_abs ys of
                     Inl e \<Rightarrow> Inl e
                   | Inr ys' \<Rightarrow>
                       (case mse xs' ys' of
                          Inl e \<Rightarrow> Inl e
                        | Inr err \<Rightarrow> Inr (float_less err threshold))))"
    using assms by (simp add: array_equal_def compared_arrays_def split: sum.splits)
  have d: "array_equal_default np_abs mse a b
           = (case mse xs ys of
                Inl e \<Rightarrow> Inl e
              | Inr err \<Rightarrow> Inr (float_less err default_threshold))"
    by (simp add: array_equal_default_def t)
  have i: "array_equal np_abs mse a b threshold True = Inr True
              \<longleftrightarrow> (\<exists>err. mse xs ys = Inr err \<and> float_less err threshold)"
    by (simp add: t split: sum.splits)
  show ?thesis
    using t [of threshold] f d i scalar_abs_int64 scalar_abs_least_int64 by simp
qed

theorem array_equal_iff_mse_witness:
  "ravel (to_nparray (NdArray \<lparr>shape = [2], data = [1, -2 :: real]\<rparr>)) = Inr [1, -2]
   \<and> ravel (to_nparray (PdDataFrame [(''fea0'', [1, 2 :: real])])) = Inr [1, 2]
   \<and> array_equal np_abs_real (exact_mse (\<lambda>v. v)) (NdArray \<lparr>shape = [2], data = [1, -2]\<rparr>)
        (PdDataFrame [(''fea0'', [1, 2])]) (Finite 8) True = Inr False
   \<and> array_equal np_abs_real (exact_mse (\<lambda>v. v)) (NdArray \<lparr>shape = [2], data = [1, -2]\<rparr>)
        (PdDataFrame [(''fea0'', [1, 2])]) (Finite 9) True = Inr True
   \<and> array_equal np_abs_real (exact_mse (\<lambda>v. v)) (NdArray \<lparr>shape = [2], data = [1, -2]\<rparr>)
        (PdDataFrame [(''fea0'', [1, 2])]) default_threshold False = Inr True
   \<and> array_equal_default np_abs_real (exact_mse (\<lambda>v. v))
        (NdArray \<lparr>shape = [2], data = [1, -2]\<rparr>) (PdDataFrame [(''fea0'', [1, 2])]) = Inr False
   \<and> - (2 ^ 63) < (-5 :: int) \<and> (-5 :: int) < 2 ^ 63
   \<and> scalar_value (scalar_abs (Int64 (-5))) = 5"
proof -
  let ?a = "NdArray \<lparr>shape = [2], data = [1, -2 :: real]\<rparr>"
  let ?b = "PdDataFrame [(''fea0'', [1, 2 :: real])]"
  have h1: "ravel (to_nparray ?a) = Inr [1, -2]" by simp
  have h2: "ravel (to_nparray ?b) = Inr [1, 2]"
    by (simp add: frame_values_def frame_nrows_def upt_rec)
  have m1: "exact_mse (\<lambda>v. v) [1, -2 :: real] [1, 2] = Inr (Finite 8)"
    by (simp add: exact_mse_def mean_squared_error_def squared_error_sum_def)
  have m2: "exact_mse (\<lambda>v. v) [1, 2 :: real] [1, 2] = Inr (Finite 0)"
    by (simp add: exact_mse_def mean_squared_error_def squared_error_sum_def)
  have ab: "np_abs_real [1, -2] = Inr [1, 2]" "np_abs_real [1, 2] = Inr [1, 2]"
    by (simp_all add: np_abs_real_def)
  have r: "- (2 ^ 63) < (-5 :: int) \<and> (-5 :: int) < 2 ^ 63" by simp
  note w = array_equal_iff_mse [OF h1 h2, of np_abs_real "exact_mse (\<lambda>v. v)"]
  have "\<forall>v. - (2 ^ 63) < v \<and> v < 2 ^ 63
          \<longrightarrow> scalar_value (scalar_abs (Int64 v)) = \<bar>real_of_int v\<bar>"
    using w [of "Finite 8"] by (elim conjE)
  then have "- (2 ^ 63) < (-5 :: int) \<and> (-5 :: int) < 2 ^ 63
          \<longrightarrow> scalar_value (scalar_abs (Int64 (-5))) = \<bar>real_of_int (-5)\<bar>"
    by (rule spec)
  with r have v: "scalar_value (scalar_abs (Int64 (-5))) = 5" by simp
  show ?thesis
    using w [of "Finite 8"] w [of "Finite 9"] w [of default_threshold] h1 h2 m1 m2 ab r v
    by (simp add: default_threshold_def)
qed

text \<open>
  The claim as written fails for an int64 array that holds \<open>-2^63\<close>: with
  \<open>with_sign = False\<close> the value handed on for comparison is \<open>-2^63\<close> again, not its
  absolute value. Against the float64 array that holds \<open>2^63\<close> the mean squared error of
  the absolute values is 0, below the threshold, and yet \<open>False\<close> is returned.
\<close>

theorem array_equal_int64_counterexample:
  "compared_arrays np_abs_scalar (NdArray \<lparr>shape = [1], data = [Int64 (- (2 ^ 63))]\<rparr>)
       (NdArray \<lparr>shape = [1], data = [Float64 (2 ^ 63)]\<rparr>) False
     = Inr ([Int64 (- (2 ^ 63))], [Float64 (2 ^ 63)])
   \<and> array_equal np_abs_scalar (exact_mse scalar_value)
       (NdArray \<lparr>shape = [1], data = [Int64 (- (2 ^ 63))]\<rparr>)
       (NdArray \<lparr>shape = [1], data = [Float64 (2 ^ 63)]\<rparr>) default_threshold False
     = Inr False
   \<and> mean_squared_error (map (\<lambda>x. \<bar>scalar_value x\<bar>) [Int64 (- (2 ^ 63))])
       (map (\<lambda>x. \<bar>scalar_value x\<bar>) [Float64 (2 ^ 63)]) = Inr 0
   \<and> float_less (Finite 0) default_threshold"
  by (simp add: compared_arrays_def array_equal_def np_abs_scalar_def wrap64_def exact_mse_def
      mean_squared_error_def squared_error_sum_def default_threshold_def)


section \<open>The number of training rows is between zero and the number of rows\<close>

lemma round_half_even_nonneg: "0 \<le> n \<Longrightarrow> 0 \<le> round_half_even n s"
  by (simp add: round_half_even_def Let_def pos_imp_zdiv_nonneg_iff)

lemma round_half_even_upper:
  "2 * (round_half_even n s * 2 ^ s) \<le> 2 * n + 2 ^ s"
proof -
  have split: "n = n div 2 ^ s * 2 ^ s + n mod 2 ^ s"
    using div_mult_mod_eq [of n "2 ^ s"] by simp
  have r0: "0 \<le> n mod 2 ^ s" by simp
  show ?thesis
  proof (cases "2 ^ s < 2 * (n mod 2 ^ s) \<or> (2 * (n mod 2 ^ s) = 2 ^ s \<and> odd (n div 2 ^ s))")
    case True
    then have up: "(2::int) ^ s \<le> 2 * (n mod 2 ^ s)" by auto
    have "round_half_even n s = n div 2 ^ s + 1"
      using True by (simp add: round_half_even_def Let_def)
    then have "2 * (round_half_even n s * 2 ^ s) = 2 * (n div 2 ^ s * 2 ^ s) + 2 * 2 ^ s"
      by (simp add: algebra_simps)
    also have "\<dots> \<le> 2 * (n div 2 ^ s * 2 ^ s) + 2 * (n mod 2 ^ s) + 2 ^ s"
      using up by simp
    also have "\<dots> = 2 * n + 2 ^ s" using split by simp
    finally show ?thesis .
  next
    case False
    then have "round_half_even n s = n div 2 ^ s"
      by (auto simp add: round_half_even_def Let_def)
    then have "2 * (round_half_even n s * 2 ^ s) = 2 * (n div 2 ^ s * 2 ^ s)" by simp
    also have "\<dots> \<le> 2 * n + 2 ^ s"
    proof -
      have "(0::int) \<le> 2 ^ s" by simp
      then show ?thesis using split r0 by linarith
    qed
    finally show ?thesis .
  qed
qed

lemma round_double_value:
  assumes "0 \<le> m" and "round_double m e = (m', e')"
  shows "0 \<le> m' \<and> real_of_int m' * 2 powi e' \<le> real_of_int m * 2 powi e * (1 + 1 / 2 ^ 53)"
proof (cases "bitlen m \<le> 53")
  case True
  then have "m' = m" "e' = e" using assms(2) by (simp_all add: round_double_def)
  moreover have "0 \<le> real_of_int m * 2 powi e" using assms(1) by simp
  ultimately show ?thesis using assms(1) by (simp add: algebra_simps)
next
  case False
  define s where "s = nat (bitlen m - 53)"
  have s_pos: "bitlen m - 53 = int s" using False by (simp add: s_def)
  have m': "m' = round_half_even m s" and e': "e' = e + int s"
    using assms(2) False by (simp_all add: round_double_def s_def)
  have mpos: "0 < m" using False bitlen_eq_zero_iff [of m] assms(1)
    by (cases "m = 0") auto
  have "nat (bitlen m - 1) = 52 + s" using s_pos by simp
  then have low: "(2::int) ^ (52 + s) \<le> m" using bitlen_bounds [OF mpos] by simp
  have lowr: "(2::real) ^ s * 2 ^ 52 \<le> real_of_int m"
  proof -
    have "real_of_int ((2::int) ^ (52 + s)) \<le> real_of_int m" using low by linarith
    then show ?thesis by (simp add: power_add mult.commute)
  qed
  have up: "2 * (real_of_int m' * 2 ^ s) \<le> 2 * real_of_int m + 2 ^ s"
  proof -
    have "2 * (m' * 2 ^ s) \<le> 2 * m + 2 ^ s"
      using round_half_even_upper [of m s] m' by simp
    then have "real_of_int (2 * (m' * 2 ^ s)) \<le> real_of_int (2 * m + 2 ^ s)"
      by (simp only: of_int_le_iff)
    then show ?thesis by simp
  qed
  have "real_of_int m' * 2 ^ s \<le> real_of_int m * (1 + 1 / 2 ^ 53)"
    using up lowr by (simp add: algebra_simps)
  then have "real_of_int m' * 2 ^ s * 2 powi e \<le> real_of_int m * (1 + 1 / 2 ^ 53) * 2 powi e"
    by (rule mult_right_mono) simp
  moreover have "(2::real) powi e' = 2 ^ s * 2 powi e"
    by (simp add: e' power_int_add mult.commute)
  ultimately have "real_of_int m' * 2 powi e' \<le> real_of_int m * 2 powi e * (1 + 1 / 2 ^ 53)"
    by (simp add: algebra_simps)
  then show ?thesis using m' round_half_even_nonneg [OF assms(1)] by simp
qed


lemma train_rows_bounds:
  assumes "0 \<le> n" and "train_rows n = Inr t"
  shows "0 \<le> t \<and> t \<le> n"
proof -
  obtain m e where r1: "round_double \<bar>n\<bar> 0 = (m, e)" by (cases "round_double \<bar>n\<bar> 0")
  obtain m2 e2 where r2: "round_double (m * 3602879701896397) (e - 52) = (m2, e2)"
    by (cases "round_double (m * 3602879701896397) (e - 52)")
  define u where "u = (if 0 \<le> e2 then m2 * 2 ^ nat e2 else m2 div 2 ^ nat (- e2))"
  have t: "t = sgn n * u"
    using assms(2) r1 r2 by (simp add: train_rows_def u_def split: if_splits)
  have b1: "0 \<le> m" and v1: "real_of_int m * 2 powi e \<le> real_of_int n * (1 + 1 / 2 ^ 53)"
    using round_double_value [OF _ r1] assms(1) by simp_all
  have m0: "0 \<le> m * 3602879701896397" using b1 by simp
  have b2: "0 \<le> m2"
    and v2: "real_of_int m2 * 2 powi e2
             \<le> real_of_int (m * 3602879701896397) * 2 powi (e - 52) * (1 + 1 / 2 ^ 53)"
    using round_double_value [OF m0 r2] by simp_all
  have "(2::real) powi (e - 52) = 2 powi e / 2 ^ 52"
    by (simp add: power_int_diff)
  then have "real_of_int (m * 3602879701896397) * 2 powi (e - 52) * (1 + 1 / 2 ^ 53)
             = (real_of_int m * 2 powi e) * (3602879701896397 / 2 ^ 52 * (1 + 1 / 2 ^ 53))"
    by simp
  also have "\<dots> \<le> (real_of_int n * (1 + 1 / 2 ^ 53)) * (3602879701896397 / 2 ^ 52 * (1 + 1 / 2 ^ 53))"
    by (rule mult_right_mono [OF v1]) simp
  also have "\<dots> = real_of_int n * ((1 + 1 / 2 ^ 53) * (3602879701896397 / 2 ^ 52 * (1 + 1 / 2 ^ 53)))"
    by simp
  also have "\<dots> \<le> real_of_int n * 1"
    by (rule mult_left_mono) (use assms(1) in simp_all)
  finally have v3: "real_of_int m2 * 2 powi e2 \<le> real_of_int n" using v2 by simp
  have u0: "0 \<le> u" using b2 by (simp add: u_def pos_imp_zdiv_nonneg_iff)
  have uv: "real_of_int u \<le> real_of_int m2 * 2 powi e2"
  proof (cases "0 \<le> e2")
    case True
    then have "(2::real) powi e2 = 2 ^ nat e2" by (simp add: power_int_def)
    then show ?thesis using True by (simp add: u_def)
  next
    case False
    then have p: "(2::real) powi e2 = 1 / 2 ^ nat (- e2)"
      by (simp add: power_int_def field_simps)
    have "real_of_int (m2 div 2 ^ nat (- e2)) \<le> real_of_int m2 / real_of_int (2 ^ nat (- e2))"
      by (rule real_of_int_div4)
    then show ?thesis using False p by (simp add: u_def)
  qed
  have "real_of_int u \<le> real_of_int n" using uv v3 by linarith
  then have un: "u \<le> n" by simp
  show ?thesis
  proof (cases "n = 0")
    case True
    then show ?thesis using t by simp
  next
    case False
    then have "sgn n = 1" using assms(1) by simp
    then show ?thesis using t u0 un by simp
  qed
qed

lemma round_half_even_le_pow:
  assumes "0 \<le> n" and "n < 2 ^ (k + s)"
  shows "round_half_even n s \<le> 2 ^ k"
proof -
  have "n div 2 ^ s < 2 ^ k"
  proof (rule ccontr)
    assume "\<not> n div 2 ^ s < 2 ^ k"
    then have ge: "(2::int) ^ k \<le> n div 2 ^ s" by simp
    have "(2::int) ^ k * 2 ^ s \<le> n div 2 ^ s * 2 ^ s"
      by (rule mult_right_mono [OF ge]) simp
    also have "\<dots> \<le> n"
    proof -
      have "(0::int) \<le> n mod 2 ^ s" by simp
      then show ?thesis using div_mult_mod_eq [of n "2 ^ s"] by linarith
    qed
    finally show False using assms(2) by (simp add: power_add)
  qed
  then show ?thesis by (simp add: round_half_even_def Let_def)
qed

lemma train_rows_total:
  assumes "\<bar>n\<bar> < 2 ^ 1023"
  shows "\<exists>t. train_rows n = Inr t"
proof -
  obtain m e where r1: "round_double \<bar>n\<bar> 0 = (m, e)" by (cases "round_double \<bar>n\<bar> 0")
  have "m * 2 ^ nat e < 2 ^ 1024"
  proof (cases "bitlen \<bar>n\<bar> \<le> 53")
    case True
    then have "m = \<bar>n\<bar>" "e = 0" using r1 by (simp_all add: round_double_def)
    then show ?thesis using assms by simp
  next
    case False
    define s where "s = nat (bitlen \<bar>n\<bar> - 53)"
    have s: "bitlen \<bar>n\<bar> - 53 = int s" using False by (simp add: s_def)
    have "round_double \<bar>n\<bar> 0 = (round_half_even \<bar>n\<bar> s, bitlen \<bar>n\<bar> - 53)"
      using False by (simp add: round_double_def s_def)
    then have m: "m = round_half_even \<bar>n\<bar> s" and e: "e = int s"
      using r1 s by simp_all
    have npos: "0 < \<bar>n\<bar>" using False bitlen_eq_zero_iff [of "\<bar>n\<bar>"] by (cases "n = 0") auto
    have "nat (bitlen \<bar>n\<bar>) = 53 + s" using s by simp
    then have hi: "\<bar>n\<bar> < 2 ^ (53 + s)" using bitlen_bounds [OF npos] by simp
    have "nat (bitlen \<bar>n\<bar> - 1) = 52 + s" using s by simp
    then have "(2::int) ^ (52 + s) \<le> \<bar>n\<bar>" using bitlen_bounds [OF npos] by simp
    then have "(2::int) ^ (52 + s) < 2 ^ 1023" using assms by linarith
    moreover have "(2::int) ^ (52 + s) < 2 ^ 1023 \<longleftrightarrow> 52 + s < 1023"
      by (rule power_strict_increasing_iff) simp
    ultimately have "52 + s < 1023" by blast
    then have s970: "s \<le> 970" by simp
    have "m \<le> 2 ^ 53" using round_half_even_le_pow [OF _ hi] m by simp
    then have "m * 2 ^ s \<le> 2 ^ 53 * 2 ^ s" by simp
    also have "\<dots> = (2::int) ^ (53 + s)" by (simp add: power_add)
    also have "\<dots> \<le> 2 ^ 1023" using s970 by (intro power_increasing) simp_all
    finally show ?thesis using e by simp
  qed
  then show ?thesis using r1 by (simp add: train_rows_def split: prod.splits)
qed

text \<open>
  Up to \<open>2^50\<close> rows the two roundings do not show: \<open>int(nrows*0.8)\<close> is four fifths of
  \<open>nrows\<close>, rounded down.
\<close>

lemma div_between:
  fixes a b k :: int
  assumes "0 < b" and "k * b \<le> a" and "a < (k + 1) * b"
  shows "a div b = k"
proof -
  have "a = b * k + (a - k * b)" by (simp add: algebra_simps)
  moreover have "0 \<le> a - k * b" using assms(2) by simp
  moreover have "a - k * b < b" using assms(3) by (simp add: algebra_simps)
  ultimately show ?thesis by (metis int_div_pos_eq)
qed

lemma train_rows_small:
  assumes n0: "0 \<le> n" and n50: "n < 2 ^ 50"
  shows "train_rows n = Inr (4 * n div 5)"
proof -
  define N where "N = n * 3602879701896397"
  define k where "k = 4 * n div 5"
  have k0: "0 \<le> k" using n0 by (simp add: k_def)
  have bl: "bitlen n \<le> 53"
  proof -
    have "n < 2 ^ nat 53" using n50 by simp
    then show ?thesis by (simp only: bitlen_le_iff_power) simp
  qed
  have r1: "round_double \<bar>n\<bar> 0 = (n, 0)" using n0 bl by (simp add: round_double_def)
  have j: "5 * k \<le> 4 * n" "4 * n \<le> 5 * k + 4" unfolding k_def by presburger+
  have N5: "5 * N = 4 * n * 2 ^ 52 + n" by (simp add: N_def)
  have lo5: "5 * (k * 2 ^ 52) \<le> 5 * N"
  proof -
    have "5 * k * 2 ^ 52 \<le> 4 * n * (2 ^ 52 :: int)"
      using j(1) by (intro mult_right_mono) simp_all
    then show ?thesis using N5 n0 by simp
  qed
  have hi5: "5 * N < 5 * (k * 2 ^ 52 + 15 * 2 ^ 48)"
  proof -
    have "4 * n * (2 ^ 52 :: int) \<le> (5 * k + 4) * 2 ^ 52"
      using j(2) by (intro mult_right_mono) simp_all
    then show ?thesis using N5 n50 by (simp add: algebra_simps)
  qed
  have lo: "k * 2 ^ 52 \<le> N" using lo5 by simp
  have hi: "N < k * 2 ^ 52 + 15 * 2 ^ 48" using hi5 by simp
  have N0: "0 \<le> N" using n0 by (simp add: N_def)
  define m2 where "m2 = fst (round_double N (- 52))"
  define e2 where "e2 = snd (round_double N (- 52))"
  define t where "t = (if 0 \<le> e2 then m2 * 2 ^ nat e2 else m2 div 2 ^ nat (- e2))"
  have tr: "train_rows n = Inr (sgn n * t)"
    using r1 n50
    by (simp add: train_rows_def N_def t_def m2_def e2_def split: prod.splits)
  have tk: "t = k"
  proof (cases "bitlen N \<le> 53")
    case True
    then have "m2 = N" "e2 = - 52" by (simp_all add: m2_def e2_def round_double_def)
    then have "t = N div 2 ^ 52" by (simp add: t_def)
    moreover have "N div 2 ^ 52 = k"
      by (rule div_between) (use lo hi in simp_all)
    ultimately show ?thesis by simp
  next
    case False
    define s where "s = nat (bitlen N - 53)"
    have s: "bitlen N - 53 = int s" and s1: "1 \<le> s" using False by (simp_all add: s_def)
    have m2: "m2 = round_half_even N s" and e2: "e2 = - 52 + int s"
      using False by (simp_all add: m2_def e2_def round_double_def s_def)
    have "N < 2 ^ 102"
    proof -
      have "N < 2 ^ 50 * 3602879701896397"
        unfolding N_def using n50 by (intro mult_strict_right_mono) simp_all
      then show ?thesis by simp
    qed
    then have "N < 2 ^ nat 102" by simp
    then have "bitlen N \<le> 102" by (simp only: bitlen_le_iff_power) simp
    then have s49: "s \<le> 49" using s by simp
    define d where "d = 52 - s"
    have d: "s + d = 52" using s49 by (simp add: d_def)
    have p52: "(2::int) ^ 52 = 2 ^ d * 2 ^ s"
      using d by (simp flip: power_add add: add.commute)
    have e2neg: "\<not> 0 \<le> e2" "nat (- e2) = d" using e2 s49 by (simp_all add: d_def)
    have t': "t = m2 div 2 ^ d" using e2neg by (simp add: t_def)
    have low: "k * 2 ^ d \<le> m2"
    proof -
      have "k * 2 ^ d * 2 ^ s \<le> N" using lo p52 by (simp add: mult.assoc)
      then have "(k * 2 ^ d * 2 ^ s) div 2 ^ s \<le> N div 2 ^ s"
        by (intro zdiv_mono1) simp_all
      then have "k * 2 ^ d \<le> N div 2 ^ s" by simp
      moreover have "N div 2 ^ s \<le> round_half_even N s"
        by (simp add: round_half_even_def Let_def)
      ultimately show ?thesis using m2 by simp
    qed
    have up: "m2 < (k + 1) * 2 ^ d"
    proof (rule ccontr)
      assume "\<not> m2 < (k + 1) * 2 ^ d"
      then have "(k + 1) * 2 ^ d \<le> m2" by simp
      then have "(k + 1) * 2 ^ d * 2 ^ s \<le> m2 * 2 ^ s"
        by (intro mult_right_mono) simp_all
      moreover have "(k + 1) * (2::int) ^ 52 = (k + 1) * 2 ^ d * 2 ^ s"
        by (simp only: p52 mult.assoc)
      ultimately have a: "(k + 1) * 2 ^ 52 \<le> m2 * 2 ^ s" by (simp only:)
      have b: "2 * (m2 * 2 ^ s) \<le> 2 * N + 2 ^ s"
        using round_half_even_upper [of N s] m2 by simp
      have "(2::int) ^ s \<le> 2 ^ 49" using s49 by (intro power_increasing) simp_all
      then have c: "2 * N + 2 ^ s < 2 * (k * 2 ^ 52) + 2 * 2 ^ 52"
        using hi by simp
      have "2 * ((k + 1) * 2 ^ 52) \<le> 2 * (m2 * 2 ^ s)" using a by simp
      also have "\<dots> \<le> 2 * N + 2 ^ s" by (rule b)
      also have "\<dots> < 2 * (k * 2 ^ 52) + 2 * 2 ^ 52" by (rule c)
      finally show False by (simp add: algebra_simps)
    qed
    have "m2 div 2 ^ d = k"
      by (rule div_between) (use low up in simp_all)
    then show ?thesis using t' by simp
  qed
  show ?thesis
  proof (cases "n = 0")
    case True
    then show ?thesis using tr by (simp add: k_def)
  next
    case False
    then have "sgn n = 1" using n0 by simp
    then show ?thesis using tr tk by (simp add: k_def)
  qed
qed



section \<open>Properties of the data loaders\<close>

lemma slice_index_nat: "0 \<le> t \<Longrightarrow> t \<le> int n \<Longrightarrow> slice_index n t = nat t"
  by (simp add: slice_index_def)

lemma randint_Inr:
  "randint g low high k = Inr xs \<Longrightarrow>
     0 \<le> k \<and> (k = 0 \<or> low < high) \<and> length xs = nat k
     \<and> xs = map (\<lambda>i. low + int (g i) mod (high - low)) [0..<nat k]"
  by (auto simp: randint_def split: if_splits)

lemma randint_in_range:
  assumes "randint g low high k = Inr xs" and "x \<in> set xs"
  shows "low \<le> x \<and> x < high"
proof -
  from randint_Inr [OF assms(1)] have c: "k = 0 \<or> low < high" and l: "length xs = nat k"
    and xs: "xs = map (\<lambda>i. low + int (g i) mod (high - low)) [0..<nat k]" by simp_all
  from assms(2) l have "k \<noteq> 0" by auto
  with c have lh: "low < high" by simp
  from assms(2) xs obtain i where "x = low + int (g i) mod (high - low)" by auto
  moreover have "0 \<le> int (g i) mod (high - low)" "int (g i) mod (high - low) < high - low"
    using lh by simp_all
  ultimately show ?thesis by linarith
qed

lemma fancy_rows_Inr:
  "fancy_rows X ix = Inr Y \<Longrightarrow> mat_rows Y = length ix \<and> mat_cols Y = mat_cols X"
  by (auto simp: fancy_rows_def split: if_splits)

lemma mortgage_data_rows:
  assumes "mortgage_data w cached nrows ncols = Inr (X, y)"
  shows "0 \<le> nrows \<and> mat_rows X = nat nrows \<and> mat_rows y = nat nrows"
  using assms
  by (auto simp: mortgage_data_def Let_def col_slice_def select_cols_def
      split: sum.splits dest!: randint_Inr fancy_rows_Inr)

lemma dataset_sgd_rows:
  assumes "snd (dataset_sgd w nrows ncols cached) = Inr (X, y)"
  shows "0 \<le> nrows \<and> mat_rows X = nat nrows \<and> mat_rows y = nat nrows"
proof (cases "path_exists w cached")
  case True
  then show ?thesis using assms mortgage_data_rows by (simp add: dataset_sgd_def)
next
  case False
  then show ?thesis using assms
    by (auto simp: dataset_sgd_def rand_def column_matrix_def
        split: sum.splits if_splits dest!: randint_Inr)
qed

lemma make_regression_Inr:
  "make_regression gen n f i s = Inr (X, y) \<Longrightarrow>
     0 \<le> n \<and> 0 \<le> f \<and> mat_rows X = nat n \<and> mat_cols X = nat f
     \<and> (\<exists>d. gen n f i s = Inr d)
     \<and> (if n = 1 then \<exists>v. y = Labels0D v else \<exists>ys. y = Labels1D ys \<and> length ys = nat n)"
  by (auto simp: make_regression_def split: if_splits sum.splits)

lemma dataset_ridge_rows:
  assumes "snd (dataset_ridge gen w nrows ncols cached) = Inr (X, y)"
  shows "0 \<le> nrows \<and> mat_rows X = nat nrows
         \<and> ((\<forall>v. y \<noteq> Labels0D v) \<longrightarrow> label_rows y = nat nrows)"
proof (cases "path_exists w cached")
  case True
  then show ?thesis using assms
    by (auto simp: dataset_ridge_def split: sum.splits dest!: mortgage_data_rows)
next
  case False
  then have "make_regression gen nrows ncols ncols 0 = Inr (X, y)"
    using assms by (simp add: dataset_ridge_def)
  from make_regression_Inr [OF this] show ?thesis by (auto split: if_splits)
qed

lemma length_column: "length (column X a b i) = b - a"
  by (simp add: column_def)

lemma frame_of_lengths: "list_all (\<lambda>c. length (snd c) = b - a) (frame_of X a b)"
  by (simp add: frame_of_def list_all_iff length_column)

lemma load_data_sgd_Inr:
  assumes "snd (load_data_sgd w nrows ncols cached) = Inr (Xtr, Xte, ytr, yte)"
  shows "\<exists>X y t. snd (dataset_sgd w nrows ncols cached) = Inr (X, y) \<and> train_rows nrows = Inr t
           \<and> Xtr = frame_of X 0 (slice_index (mat_rows X) t)
           \<and> Xte = frame_of X (slice_index (mat_rows X) t) (mat_rows X)
           \<and> ytr = frame_of y 0 (slice_index (mat_rows y) t)
           \<and> yte = frame_of y (slice_index (mat_rows y) t) (mat_rows y)"
  using assms by (auto simp: load_data_sgd_def split: sum.splits)

lemma load_data_ridge_Inr:
  assumes "snd (load_data_ridge gen w nrows ncols cached) = Inr (Xtr, Xte, ytr, yte)"
  shows "\<exists>X y t. snd (dataset_ridge gen w nrows ncols cached) = Inr (X, y) \<and> train_rows nrows = Inr t
           \<and> Xtr = frame_of X 0 (slice_index (mat_rows X) t)
           \<and> Xte = frame_of X (slice_index (mat_rows X) t) (mat_rows X)
           \<and> labels_frame y 0 (slice_index (label_rows y) t) = Inr ytr
           \<and> labels_frame y (slice_index (label_rows y) t) (label_rows y) = Inr yte"
  using assms by (auto simp: load_data_ridge_def split: sum.splits)

lemma labels_frame_lengths:
  assumes "labels_frame y a b = Inr fr" and "b \<le> label_rows y"
  shows "list_all (\<lambda>c. length (snd c) = b - a) fr"
  using assms frame_of_lengths [of b a] by (cases y) auto

lemma labels_frame_Inr: "labels_frame y a b = Inr fr \<Longrightarrow> \<forall>v. y \<noteq> Labels0D v"
  by (cases y) simp_all

lemma load_data_sgd_split:
  assumes "snd (load_data_sgd w nrows ncols cached) = Inr (Xtr, Xte, ytr, yte)"
  shows "\<exists>X y t. snd (dataset_sgd w nrows ncols cached) = Inr (X, y) \<and> train_rows nrows = Inr t
           \<and> 0 \<le> t \<and> t \<le> nrows \<and> mat_rows X = nat nrows \<and> mat_rows y = nat nrows
           \<and> Xtr = frame_of X 0 (nat t) \<and> Xte = frame_of X (nat t) (nat nrows)
           \<and> ytr = frame_of y 0 (nat t) \<and> yte = frame_of y (nat t) (nat nrows)
           \<and> list_all (\<lambda>c. length (snd c) = nat t) (Xtr @ ytr)
           \<and> list_all (\<lambda>c. length (snd c) = nat (nrows - t)) (Xte @ yte)"
proof -
  from load_data_sgd_Inr [OF assms] obtain X y t where
    d: "snd (dataset_sgd w nrows ncols cached) = Inr (X, y)" and t: "train_rows nrows = Inr t"
    and fr: "Xtr = frame_of X 0 (slice_index (mat_rows X) t)"
      "Xte = frame_of X (slice_index (mat_rows X) t) (mat_rows X)"
      "ytr = frame_of y 0 (slice_index (mat_rows y) t)"
      "yte = frame_of y (slice_index (mat_rows y) t) (mat_rows y)"
    by blast
  from dataset_sgd_rows [OF d] have n0: "0 \<le> nrows"
    and rx: "mat_rows X = nat nrows" and ry: "mat_rows y = nat nrows" by simp_all
  from train_rows_bounds [OF n0 t] have tb: "0 \<le> t" "t \<le> nrows" by simp_all
  have si: "slice_index (nat nrows) t = nat t"
    using tb n0 by (simp add: slice_index_nat)
  have fr': "Xtr = frame_of X 0 (nat t)" "Xte = frame_of X (nat t) (nat nrows)"
    "ytr = frame_of y 0 (nat t)" "yte = frame_of y (nat t) (nat nrows)"
    using fr rx ry si by simp_all
  have l1: "list_all (\<lambda>c. length (snd c) = nat t) (Xtr @ ytr)"
    using frame_of_lengths [where a = 0 and b = "nat t" and X = X] frame_of_lengths [where a = 0 and b = "nat t" and X = y] fr' by simp
  have "nat nrows - nat t = nat (nrows - t)" using tb by simp
  then have l2: "list_all (\<lambda>c. length (snd c) = nat (nrows - t)) (Xte @ yte)"
    using frame_of_lengths [where a = "nat t" and b = "nat nrows" and X = X] frame_of_lengths [where a = "nat t" and b = "nat nrows" and X = y] fr'
    by simp
  show ?thesis using d t tb rx ry fr' l1 l2 by blast
qed

lemma load_data_ridge_split:
  assumes "snd (load_data_ridge gen w nrows ncols cached) = Inr (Xtr, Xte, ytr, yte)"
  shows "\<exists>X y t. snd (dataset_ridge gen w nrows ncols cached) = Inr (X, y) \<and> train_rows nrows = Inr t
           \<and> 0 \<le> t \<and> t \<le> nrows \<and> mat_rows X = nat nrows \<and> label_rows y = nat nrows
           \<and> Xtr = frame_of X 0 (nat t) \<and> Xte = frame_of X (nat t) (nat nrows)
           \<and> labels_frame y 0 (nat t) = Inr ytr \<and> labels_frame y (nat t) (nat nrows) = Inr yte
           \<and> list_all (\<lambda>c. length (snd c) = nat t) (Xtr @ ytr)
           \<and> list_all (\<lambda>c. length (snd c) = nat (nrows - t)) (Xte @ yte)"
proof -
  from load_data_ridge_Inr [OF assms] obtain X y t where
    d: "snd (dataset_ridge gen w nrows ncols cached) = Inr (X, y)" and t: "train_rows nrows = Inr t"
    and fr: "Xtr = frame_of X 0 (slice_index (mat_rows X) t)"
      "Xte = frame_of X (slice_index (mat_rows X) t) (mat_rows X)"
      "labels_frame y 0 (slice_index (label_rows y) t) = Inr ytr"
      "labels_frame y (slice_index (label_rows y) t) (label_rows y) = Inr yte"
    by blast
  from labels_frame_Inr [OF fr(3)] have nz: "\<forall>v. y \<noteq> Labels0D v" .
  from dataset_ridge_rows [OF d] nz have n0: "0 \<le> nrows"
    and rx: "mat_rows X = nat nrows" and ry: "label_rows y = nat nrows" by simp_all
  from train_rows_bounds [OF n0 t] have tb: "0 \<le> t" "t \<le> nrows" by simp_all
  have si: "slice_index (nat nrows) t = nat t"
    using tb n0 by (simp add: slice_index_nat)
  have fr': "Xtr = frame_of X 0 (nat t)" "Xte = frame_of X (nat t) (nat nrows)"
    "labels_frame y 0 (nat t) = Inr ytr" "labels_frame y (nat t) (nat nrows) = Inr yte"
    using fr rx ry si by simp_all
  have le: "nat t \<le> label_rows y" "nat nrows \<le> label_rows y" using ry tb by simp_all
  have l1: "list_all (\<lambda>c. length (snd c) = nat t) (Xtr @ ytr)"
    using frame_of_lengths [where a = 0 and b = "nat t" and X = X]
      labels_frame_lengths [OF fr'(3) le(1)] fr'(1) by simp
  have "nat nrows - nat t = nat (nrows - t)" using tb by simp
  then have l2: "list_all (\<lambda>c. length (snd c) = nat (nrows - t)) (Xte @ yte)"
    using frame_of_lengths [where a = "nat t" and b = "nat nrows" and X = X]
      labels_frame_lengths [OF fr'(4) le(2)] fr'(2)
    by simp
  show ?thesis using d t tb rx ry fr' l1 l2 by blast
qed

lemma filter_not_4: "filter (\<lambda>i. i \<noteq> 4) [0..<n] = [0..<min 4 n] @ [5..<n]"
proof (cases "5 \<le> n")
  case True
  have a: "[0..<n] = [0..<4] @ [4..<n]"
    using upt_add_eq_append [of 0 4 "n - 4"] True by simp
  have b: "[4..<n] = 4 # [5..<n]"
    using upt_conv_Cons [of 4 n] True by simp
  have c: "filter (\<lambda>i. i \<noteq> 4) [0..<4] = [0..<4]"
    by (rule filter_True) simp
  have d: "filter (\<lambda>i. i \<noteq> 4) [5..<n] = [5..<n]"
    by (rule filter_True) simp
  have "filter (\<lambda>i. i \<noteq> 4) [0..<n] = [0..<4] @ [5..<n]"
    by (simp only: a b filter_append filter.simps c d) simp
  then show ?thesis using True by (simp add: min_def)
next
  case False
  have "filter (\<lambda>i. i \<noteq> 4) [0..<n] = [0..<n]"
    by (rule filter_True) (use False in auto)
  moreover have "min 4 n = n" using False by simp
  ultimately show ?thesis using False by simp
qed

lemma length_filter_not_4:
  "length (filter (\<lambda>i. i \<noteq> 4) [0..<n]) = (if 5 \<le> n then n - 1 else n)"
  by (simp add: filter_not_4 min_def)


lemma nth_filter_not_4:
  assumes "c < length (filter (\<lambda>i. i \<noteq> 4) [0..<n])"
  shows "filter (\<lambda>i. i \<noteq> 4) [0..<n] ! c = (if c < 4 then c else c + 1)"
proof (cases "c < 4")
  case True
  have "c < n" using assms by (simp add: length_filter_not_4 split: if_splits)
  then have "c < min 4 n" using True by simp
  then show ?thesis using True by (simp add: filter_not_4 nth_append)
next
  case False
  then have "5 \<le> n" and "c + 1 < n"
    using assms by (simp_all add: length_filter_not_4 split: if_splits)
  then have "min 4 n = 4" by simp
  then show ?thesis using False \<open>c + 1 < n\<close> by (simp add: filter_not_4 nth_append)
qed

lemma slice_index_le: "slice_index n k \<le> n"
proof (cases "k < 0")
  case True
  then have "int n + k \<le> int n" by simp
  then show ?thesis using True by (simp add: slice_index_def nat_le_iff)
next
  case False
  then show ?thesis by (simp add: slice_index_def)
qed

lemma mortgage_data_entries:
  assumes f: "files w cached = Some (NpyGz X0)"
    and rnd: "randint (rng_state w) 0 (int (mat_rows X0) - 1) nrows = Inr ri"
  shows "\<exists>X y. mortgage_data w cached nrows ncols = Inr (X, y)
           \<and> length ri = nat nrows
           \<and> (\<forall>i \<in> set ri. 0 \<le> i \<and> i < int (mat_rows X0) - 1)
           \<and> mat_rows X = nat nrows \<and> mat_rows y = nat nrows
           \<and> mat_cols X = slice_index (if 5 \<le> mat_cols X0 then mat_cols X0 - 1 else mat_cols X0) ncols
           \<and> mat_cols y = (if 6 \<le> mat_cols X0 then 1 else 0)
           \<and> (\<forall>r < nat nrows. \<forall>c < mat_cols X.
                 mat_at X r c = mat_at X0 (nat (ri ! r)) (if c < 4 then c else c + 1))
           \<and> (\<forall>r < nat nrows. 6 \<le> mat_cols X0 \<longrightarrow> mat_at y r 0 = mat_at X0 (nat (ri ! r)) 5)"
proof -
  define js where "js = filter (\<lambda>i. i \<noteq> 4) [0..<mat_cols X0]"
  define X1 where "X1 = select_cols X0 js"
  define y1 where "y1 = col_slice X1 4 5"
  have ljs: "length js = (if 5 \<le> mat_cols X0 then mat_cols X0 - 1 else mat_cols X0)"
    by (simp add: js_def length_filter_not_4)
  have X1r: "mat_rows X1 = mat_rows X0" and X1c: "mat_cols X1 = length js"
    by (simp_all add: X1_def select_cols_def)
  have y1r: "mat_rows y1 = mat_rows X0"
    by (simp add: y1_def col_slice_def select_cols_def X1r)
  have y1c: "mat_cols y1 = (if 6 \<le> mat_cols X0 then 1 else 0)"
    by (auto simp add: y1_def col_slice_def select_cols_def X1c ljs slice_index_def)
  have load: "np_load_gz w cached = Inr X0" by (simp add: np_load_gz_def f)
  have lri: "length ri = nat nrows" using randint_Inr [OF rnd] by simp
  have rng: "\<forall>i \<in> set ri. 0 \<le> i \<and> i < int (mat_rows X0) - 1"
    using randint_in_range [OF rnd] by blast
  have ok: "list_all (\<lambda>i. - int (mat_rows X0) \<le> i \<and> i < int (mat_rows X0)) ri"
    unfolding list_all_iff using rng by fastforce
  define X2 where "X2 = \<lparr>mat_rows = length ri, mat_cols = mat_cols X1,
     mat_at = (\<lambda>r c. mat_at X1 (nat (if ri ! r < 0 then int (mat_rows X1) + ri ! r else ri ! r)) c)\<rparr>"
  define y where "y = \<lparr>mat_rows = length ri, mat_cols = mat_cols y1,
     mat_at = (\<lambda>r c. mat_at y1 (nat (if ri ! r < 0 then int (mat_rows y1) + ri ! r else ri ! r)) c)\<rparr>"
  have fX: "fancy_rows X1 ri = Inr X2"
    using ok by (simp add: fancy_rows_def X1r X2_def)
  have fy: "fancy_rows y1 ri = Inr y"
    using ok by (simp add: fancy_rows_def y1r y_def)
  define X where "X = col_slice X2 0 ncols"
  have res: "mortgage_data w cached nrows ncols = Inr (X, y)"
    using fX fy rnd
    by (simp add: mortgage_data_def load Let_def js_def [symmetric] X1_def [symmetric]
        y1_def [symmetric] X1r X_def)
  have Xr: "mat_rows X = nat nrows"
    by (simp add: X_def col_slice_def select_cols_def X2_def lri)
  have yr: "mat_rows y = nat nrows" by (simp add: y_def lri)
  have Xc: "mat_cols X = slice_index (length js) ncols"
    by (simp add: X_def col_slice_def select_cols_def X2_def X1c slice_index_def)
  have yc: "mat_cols y = (if 6 \<le> mat_cols X0 then 1 else 0)" by (simp add: y_def y1c)
  have nonneg: "r < nat nrows \<Longrightarrow> 0 \<le> ri ! r" for r
    using rng lri nth_mem [of r ri] by auto
  have Xat: "mat_at X r c = mat_at X0 (nat (ri ! r)) (if c < 4 then c else c + 1)"
    if r: "r < nat nrows" and c: "c < mat_cols X" for r c
  proof -
    have ck: "c < slice_index (length js) ncols" using c Xc by simp
    have "slice_index (length js) ncols \<le> length js" by (rule slice_index_le)
    then have cl: "c < length js" using ck by simp
    have "mat_at X r c = mat_at X2 r c"
      using ck by (simp add: X_def col_slice_def select_cols_def X2_def X1c slice_index_def)
    also have "\<dots> = mat_at X1 (nat (ri ! r)) c"
      using nonneg [OF r] by (simp add: X2_def)
    also have "\<dots> = mat_at X0 (nat (ri ! r)) (js ! c)"
      by (simp add: X1_def select_cols_def)
    also have "js ! c = (if c < 4 then c else c + 1)"
      using cl unfolding js_def by (rule nth_filter_not_4)
    finally show ?thesis .
  qed
  have yat: "mat_at y r 0 = mat_at X0 (nat (ri ! r)) 5"
    if r: "r < nat nrows" and six: "6 \<le> mat_cols X0" for r
  proof -
    have l5: "5 \<le> length js" using ljs six by simp
    then have five: "4 < length (filter (\<lambda>i. i \<noteq> 4) [0..<mat_cols X0])"
      by (simp add: js_def)
    have "mat_at y r 0 = mat_at y1 (nat (ri ! r)) 0"
      using nonneg [OF r] by (simp add: y_def)
    also have "\<dots> = mat_at X1 (nat (ri ! r)) 4"
      using l5 by (simp add: y1_def col_slice_def select_cols_def X1c slice_index_def)
    also have "\<dots> = mat_at X0 (nat (ri ! r)) (js ! 4)"
      by (simp add: X1_def select_cols_def)
    also have "js ! 4 = 5"
      unfolding js_def using nth_filter_not_4 [OF five] by simp
    finally show ?thesis .
  qed
  show ?thesis
    using res lri rng Xr yr Xc yc Xat yat ljs by (intro exI [of _ X] exI [of _ y]) simp
qed

lemmas loader_eval =
  load_data_sgd_def load_data_ridge_def dataset_sgd_def dataset_ridge_def mortgage_data_def
  make_regression_def path_exists_def np_load_gz_def rand_def randint_def
  advance_def column_matrix_def select_cols_def col_slice_def fancy_rows_def slice_index_def
  frame_of_def column_def fea_def string_of_nat.simps train_rows_def round_double_def
  round_half_even_def compute_bitlen upt_rec cached_default_def example_array_def
  world_cached_def world_empty_def example_gen_def

lemma mortgage_data_randint:
  assumes "mortgage_data w cached nrows ncols = Inr (X, y)"
  shows "\<exists>X0 ri. files w cached = Some (NpyGz X0)
           \<and> randint (rng_state w) 0 (int (mat_rows X0) - 1) nrows = Inr ri"
proof -
  obtain X0 where load: "np_load_gz w cached = Inr X0"
    using assms by (auto simp: mortgage_data_def split: sum.splits)
  then have f: "files w cached = Some (NpyGz X0)"
    by (auto simp: np_load_gz_def split: option.splits fs_entry.splits)
  obtain ri where "randint (rng_state w) 0 (int (mat_rows X0) - 1) nrows = Inr ri"
    using assms
    by (auto simp: mortgage_data_def load Let_def select_cols_def split: sum.splits)
  with f show ?thesis by blast
qed











lemma map_nth_take:
  assumes "t \<le> length xs"
  shows "map (\<lambda>r. g (xs ! r)) [0..<t] = map g (take t xs)"
  using assms by (intro nth_equalityI) simp_all

lemma map_nth_drop:
  "map (\<lambda>r. g (xs ! r)) [t..<length xs] = map g (drop t xs)"
  by (intro nth_equalityI) simp_all

lemma fea_0: "fea 0 = ''fea0''"
  by (simp add: fea_def string_of_nat.simps)

lemma mortgage_frames:
  assumes f: "files w cached = Some (NpyGz X0)" and six: "6 \<le> mat_cols X0"
    and m: "mortgage_data w cached nrows ncols = Inr (X, y)"
    and t: "0 \<le> t" "t \<le> nrows"
  shows "\<exists>ri. randint (rng_state w) 0 (int (mat_rows X0) - 1) nrows = Inr ri
           \<and> length ri = nat nrows
           \<and> (\<forall>i \<in> set ri. 0 \<le> i \<and> i < int (mat_rows X0) - 1)
           \<and> frame_of y 0 (nat t) = [(''fea0'', map (\<lambda>i. mat_at X0 (nat i) 5) (take (nat t) ri))]
           \<and> frame_of y (nat t) (nat nrows)
               = [(''fea0'', map (\<lambda>i. mat_at X0 (nat i) 5) (drop (nat t) ri))]
           \<and> frame_of X 0 (nat t)
               = map (\<lambda>c. (fea c, map (\<lambda>i. mat_at X0 (nat i) (if c < 4 then c else c + 1))
                                     (take (nat t) ri)))
                   [0..<slice_index (mat_cols X0 - 1) ncols]
           \<and> frame_of X (nat t) (nat nrows)
               = map (\<lambda>c. (fea c, map (\<lambda>i. mat_at X0 (nat i) (if c < 4 then c else c + 1))
                                     (drop (nat t) ri)))
                   [0..<slice_index (mat_cols X0 - 1) ncols]"
proof -
  from mortgage_data_randint [OF m] f obtain ri where
    rnd: "randint (rng_state w) 0 (int (mat_rows X0) - 1) nrows = Inr ri" by auto
  from mortgage_data_entries [OF f rnd, of ncols] m have
    lri: "length ri = nat nrows"
    and rng: "\<forall>i \<in> set ri. 0 \<le> i \<and> i < int (mat_rows X0) - 1"
    and Xc: "mat_cols X = slice_index (if 5 \<le> mat_cols X0 then mat_cols X0 - 1 else mat_cols X0) ncols"
    and yc: "mat_cols y = (if 6 \<le> mat_cols X0 then 1 else 0)"
    and Xat: "\<forall>r < nat nrows. \<forall>c < mat_cols X.
                 mat_at X r c = mat_at X0 (nat (ri ! r)) (if c < 4 then c else c + 1)"
    and yat: "\<forall>r < nat nrows. 6 \<le> mat_cols X0 \<longrightarrow> mat_at y r 0 = mat_at X0 (nat (ri ! r)) 5"
    by auto
  have tn: "nat t \<le> nat nrows" using t by simp
  have Xc': "mat_cols X = slice_index (mat_cols X0 - 1) ncols" using Xc six by simp
  have yc': "mat_cols y = 1" using yc six by simp
  have ycol: "column y a b 0 = map (\<lambda>r. mat_at X0 (nat (ri ! r)) 5) [a..<b]"
    if "b \<le> nat nrows" for a b
    unfolding column_def using that yat six by (intro map_cong) auto
  have Xcol: "column X a b c = map (\<lambda>r. mat_at X0 (nat (ri ! r)) (if c < 4 then c else c + 1)) [a..<b]"
    if "b \<le> nat nrows" and "c < mat_cols X" for a b c
    unfolding column_def using that Xat by (intro map_cong) auto
  have y1: "frame_of y 0 (nat t) = [(''fea0'', map (\<lambda>i. mat_at X0 (nat i) 5) (take (nat t) ri))]"
    using ycol [OF tn, of 0] map_nth_take [of "nat t" ri "\<lambda>i. mat_at X0 (nat i) 5"] tn lri
    by (simp add: frame_of_def yc' fea_0)
  have y2: "frame_of y (nat t) (nat nrows)
              = [(''fea0'', map (\<lambda>i. mat_at X0 (nat i) 5) (drop (nat t) ri))]"
    using ycol [of "nat nrows" "nat t"]
      map_nth_drop [of "\<lambda>i. mat_at X0 (nat i) 5" ri "nat t"] lri
    by (simp add: frame_of_def yc' fea_0)
  have X1: "frame_of X 0 (nat t)
               = map (\<lambda>c. (fea c, map (\<lambda>i. mat_at X0 (nat i) (if c < 4 then c else c + 1))
                                     (take (nat t) ri)))
                   [0..<slice_index (mat_cols X0 - 1) ncols]"
    unfolding frame_of_def Xc' [symmetric]
  proof (intro map_cong refl)
    fix c assume "c \<in> set [0..<mat_cols X]"
    then have c: "c < mat_cols X" by simp
    show "(fea c, column X 0 (nat t) c)
            = (fea c, map (\<lambda>i. mat_at X0 (nat i) (if c < 4 then c else c + 1)) (take (nat t) ri))"
      using Xcol [OF tn c, of 0]
        map_nth_take [of "nat t" ri "\<lambda>i. mat_at X0 (nat i) (if c < 4 then c else c + 1)"] tn lri
      by simp
  qed
  have X2: "frame_of X (nat t) (nat nrows)
               = map (\<lambda>c. (fea c, map (\<lambda>i. mat_at X0 (nat i) (if c < 4 then c else c + 1))
                                     (drop (nat t) ri)))
                   [0..<slice_index (mat_cols X0 - 1) ncols]"
    unfolding frame_of_def Xc' [symmetric]
  proof (intro map_cong refl)
    fix c assume "c \<in> set [0..<mat_cols X]"
    then have c: "c < mat_cols X" by simp
    show "(fea c, column X (nat t) (nat nrows) c)
            = (fea c, map (\<lambda>i. mat_at X0 (nat i) (if c < 4 then c else c + 1)) (drop (nat t) ri))"
      using Xcol [OF _ c, of "nat nrows" "nat t"]
        map_nth_drop [of "\<lambda>i. mat_at X0 (nat i) (if c < 4 then c else c + 1)" ri "nat t"] lri
      by simp
  qed
  show ?thesis using rnd lri rng y1 y2 X1 X2 by blast
qed


lemma load_data_sgd_cached_frames:
  assumes f: "files w cached = Some (NpyGz X0)" and six: "6 \<le> mat_cols X0"
    and r: "snd (load_data_sgd w nrows ncols cached) = Inr (Xtr, Xte, ytr, yte)"
  shows "(\<exists>ri t. randint (rng_state w) 0 (int (mat_rows X0) - 1) nrows = Inr ri
         \<and> train_rows nrows = Inr t \<and> 0 \<le> t \<and> t \<le> nrows \<and> length ri = nat nrows
         \<and> (\<forall>i \<in> set ri. 0 \<le> i \<and> i < int (mat_rows X0) - 1)
         \<and> ytr = [(''fea0'', map (\<lambda>i. mat_at X0 (nat i) 5) (take (nat t) ri))]
         \<and> yte = [(''fea0'', map (\<lambda>i. mat_at X0 (nat i) 5) (drop (nat t) ri))]
         \<and> Xtr = map (\<lambda>c. (fea c, map (\<lambda>i. mat_at X0 (nat i) (if c < 4 then c else c + 1))
                                     (take (nat t) ri)))
                   [0..<slice_index (mat_cols X0 - 1) ncols]
         \<and> Xte = map (\<lambda>c. (fea c, map (\<lambda>i. mat_at X0 (nat i) (if c < 4 then c else c + 1))
                                     (drop (nat t) ri)))
                   [0..<slice_index (mat_cols X0 - 1) ncols])"
proof -
  have ex: "path_exists w cached" using f by (simp add: path_exists_def)
  from load_data_sgd_split [OF r] obtain X y t where
    d: "snd (dataset_sgd w nrows ncols cached) = Inr (X, y)" and t: "train_rows nrows = Inr t"
    and tb: "0 \<le> t" "t \<le> nrows"
    and fr: "Xtr = frame_of X 0 (nat t)" "Xte = frame_of X (nat t) (nat nrows)"
      "ytr = frame_of y 0 (nat t)" "yte = frame_of y (nat t) (nat nrows)"
    by blast
  have m: "mortgage_data w cached nrows ncols = Inr (X, y)"
    using d ex by (simp add: dataset_sgd_def)
  from mortgage_frames [OF f six m tb] obtain ri where
    q: "randint (rng_state w) 0 (int (mat_rows X0) - 1) nrows = Inr ri"
      "length ri = nat nrows"
      "\<forall>i \<in> set ri. 0 \<le> i \<and> i < int (mat_rows X0) - 1"
      "frame_of y 0 (nat t) = [(''fea0'', map (\<lambda>i. mat_at X0 (nat i) 5) (take (nat t) ri))]"
      "frame_of y (nat t) (nat nrows)
         = [(''fea0'', map (\<lambda>i. mat_at X0 (nat i) 5) (drop (nat t) ri))]"
      "frame_of X 0 (nat t)
         = map (\<lambda>c. (fea c, map (\<lambda>i. mat_at X0 (nat i) (if c < 4 then c else c + 1))
                                     (take (nat t) ri)))
             [0..<slice_index (mat_cols X0 - 1) ncols]"
      "frame_of X (nat t) (nat nrows)
         = map (\<lambda>c. (fea c, map (\<lambda>i. mat_at X0 (nat i) (if c < 4 then c else c + 1))
                                     (drop (nat t) ri)))
             [0..<slice_index (mat_cols X0 - 1) ncols]"
    by blast
  show ?thesis unfolding fr using q t tb by blast
qed

lemma load_data_ridge_cached_frames:
  assumes f: "files w cached = Some (NpyGz X0)" and six: "6 \<le> mat_cols X0"
    and r: "snd (load_data_ridge gen w nrows ncols cached) = Inr (Xtr, Xte, ytr, yte)"
  shows "(\<exists>ri t. randint (rng_state w) 0 (int (mat_rows X0) - 1) nrows = Inr ri
         \<and> train_rows nrows = Inr t \<and> 0 \<le> t \<and> t \<le> nrows \<and> length ri = nat nrows
         \<and> (\<forall>i \<in> set ri. 0 \<le> i \<and> i < int (mat_rows X0) - 1)
         \<and> ytr = [(''fea0'', map (\<lambda>i. mat_at X0 (nat i) 5) (take (nat t) ri))]
         \<and> yte = [(''fea0'', map (\<lambda>i. mat_at X0 (nat i) 5) (drop (nat t) ri))]
         \<and> Xtr = map (\<lambda>c. (fea c, map (\<lambda>i. mat_at X0 (nat i) (if c < 4 then c else c + 1))
                                     (take (nat t) ri)))
                   [0..<slice_index (mat_cols X0 - 1) ncols]
         \<and> Xte = map (\<lambda>c. (fea c, map (\<lambda>i. mat_at X0 (nat i) (if c < 4 then c else c + 1))
                                     (drop (nat t) ri)))
                   [0..<slice_index (mat_cols X0 - 1) ncols])"
proof -
  have ex: "path_exists w cached" using f by (simp add: path_exists_def)
  from load_data_ridge_split [OF r] obtain X lab t where
    d: "snd (dataset_ridge gen w nrows ncols cached) = Inr (X, lab)" and t: "train_rows nrows = Inr t"
    and tb: "0 \<le> t" "t \<le> nrows"
    and fr: "Xtr = frame_of X 0 (nat t)" "Xte = frame_of X (nat t) (nat nrows)"
      "labels_frame lab 0 (nat t) = Inr ytr" "labels_frame lab (nat t) (nat nrows) = Inr yte"
    by blast
  obtain y where m: "mortgage_data w cached nrows ncols = Inr (X, y)" and lab: "lab = Labels2D y"
    using d ex by (auto simp: dataset_ridge_def split: sum.splits)
  from mortgage_frames [OF f six m tb] obtain ri where
    q: "randint (rng_state w) 0 (int (mat_rows X0) - 1) nrows = Inr ri"
      "length ri = nat nrows"
      "\<forall>i \<in> set ri. 0 \<le> i \<and> i < int (mat_rows X0) - 1"
      "frame_of y 0 (nat t) = [(''fea0'', map (\<lambda>i. mat_at X0 (nat i) 5) (take (nat t) ri))]"
      "frame_of y (nat t) (nat nrows)
         = [(''fea0'', map (\<lambda>i. mat_at X0 (nat i) 5) (drop (nat t) ri))]"
      "frame_of X 0 (nat t)
         = map (\<lambda>c. (fea c, map (\<lambda>i. mat_at X0 (nat i) (if c < 4 then c else c + 1))
                                     (take (nat t) ri)))
             [0..<slice_index (mat_cols X0 - 1) ncols]"
      "frame_of X (nat t) (nat nrows)
         = map (\<lambda>c. (fea c, map (\<lambda>i. mat_at X0 (nat i) (if c < 4 then c else c + 1))
                                     (drop (nat t) ri)))
             [0..<slice_index (mat_cols X0 - 1) ncols]"
    by blast
  have yy: "ytr = frame_of y 0 (nat t)" "yte = frame_of y (nat t) (nat nrows)"
    using lab fr(3,4) by simp_all
  show ?thesis unfolding fr(1,2) yy using q t tb by blast
qed

text \<open>
  C8. In the cached branch of both notebooks, for a loaded array of at least six
  columns, the label table holds column 5 of the loaded array at the sampled rows, and
  feature column \<open>c\<close> holds column \<open>c\<close> of the loaded array for \<open>c < 4\<close> and column \<open>c + 1\<close>
  from there on: column 4 of the loaded array is in neither.
\<close>

theorem mortgage_label_is_column_5:
  assumes "files w cached = Some (NpyGz X0)" and "6 \<le> mat_cols X0"
  shows "(snd (load_data_sgd w nrows ncols cached) = Inr (Xtr, Xte, ytr, yte) \<longrightarrow>
      (\<exists>ri t. randint (rng_state w) 0 (int (mat_rows X0) - 1) nrows = Inr ri
         \<and> train_rows nrows = Inr t \<and> 0 \<le> t \<and> t \<le> nrows \<and> length ri = nat nrows
         \<and> (\<forall>i \<in> set ri. 0 \<le> i \<and> i < int (mat_rows X0) - 1)
         \<and> ytr = [(''fea0'', map (\<lambda>i. mat_at X0 (nat i) 5) (take (nat t) ri))]
         \<and> yte = [(''fea0'', map (\<lambda>i. mat_at X0 (nat i) 5) (drop (nat t) ri))]
         \<and> Xtr = map (\<lambda>c. (fea c, map (\<lambda>i. mat_at X0 (nat i) (if c < 4 then c else c + 1))
                                     (take (nat t) ri)))
                   [0..<slice_index (mat_cols X0 - 1) ncols]
         \<and> Xte = map (\<lambda>c. (fea c, map (\<lambda>i. mat_at X0 (nat i) (if c < 4 then c else c + 1))
                                     (drop (nat t) ri)))
                   [0..<slice_index (mat_cols X0 - 1) ncols]))
   \<and> (snd (load_data_ridge gen w nrows ncols cached) = Inr (Xtr', Xte', ytr', yte') \<longrightarrow>
      (\<exists>ri t. randint (rng_state w) 0 (int (mat_rows X0) - 1) nrows = Inr ri
         \<and> train_rows nrows = Inr t \<and> 0 \<le> t \<and> t \<le> nrows \<and> length ri = nat nrows
         \<and> (\<forall>i \<in> set ri. 0 \<le> i \<and> i < int (mat_rows X0) - 1)
         \<and> ytr' = [(''fea0'', map (\<lambda>i. mat_at X0 (nat i) 5) (take (nat t) ri))]
         \<and> yte' = [(''fea0'', map (\<lambda>i. mat_at X0 (nat i) 5) (drop (nat t) ri))]
         \<and> Xtr' = map (\<lambda>c. (fea c, map (\<lambda>i. mat_at X0 (nat i) (if c < 4 then c else c + 1))
                                     (take (nat t) ri)))
                   [0..<slice_index (mat_cols X0 - 1) ncols]
         \<and> Xte' = map (\<lambda>c. (fea c, map (\<lambda>i. mat_at X0 (nat i) (if c < 4 then c else c + 1))
                                     (drop (nat t) ri)))
                   [0..<slice_index (mat_cols X0 - 1) ncols]))"
  using load_data_sgd_cached_frames [OF assms] load_data_ridge_cached_frames [OF assms]
  by blast


theorem mortgage_label_is_column_5_witness:
  "files world_cached cached_default = Some (NpyGz example_array)
   \<and> 6 \<le> mat_cols example_array
   \<and> snd (load_data_sgd world_cached 5 3 cached_default)
     = Inr ([(''fea0'', [0, 10, 0, 10]), (''fea1'', [1, 11, 1, 11]), (''fea2'', [2, 12, 2, 12])],
            [(''fea0'', [0]), (''fea1'', [1]), (''fea2'', [2])],
            [(''fea0'', [5, 15, 5, 15])], [(''fea0'', [5])])
   \<and> snd (load_data_ridge example_gen world_cached 5 7 cached_default)
     = Inr ([(''fea0'', [0, 10, 0, 10]), (''fea1'', [1, 11, 1, 11]), (''fea2'', [2, 12, 2, 12]),
             (''fea3'', [3, 13, 3, 13]), (''fea4'', [5, 15, 5, 15]), (''fea5'', [6, 16, 6, 16])],
            [(''fea0'', [0]), (''fea1'', [1]), (''fea2'', [2]), (''fea3'', [3]), (''fea4'', [5]),
             (''fea5'', [6])],
            [(''fea0'', [5, 15, 5, 15])], [(''fea0'', [5])])
   \<and> (\<exists>ri t. randint (rng_state world_cached) 0 (int (mat_rows example_array) - 1) 5 = Inr ri
         \<and> train_rows 5 = Inr t
         \<and> [(''fea0'', [5, 15, 5, 15])]
             = [(''fea0'', map (\<lambda>i. mat_at example_array (nat i) 5) (take (nat t) ri))]
         \<and> [(''fea0'', [5])]
             = [(''fea0'', map (\<lambda>i. mat_at example_array (nat i) 5) (drop (nat t) ri))])
   \<and> (\<exists>ri t. [(''fea0'', [0]), (''fea1'', [1]), (''fea2'', [2]), (''fea3'', [3]), (''fea4'', [5]),
               (''fea5'', [6])]
             = map (\<lambda>c. (fea c, map (\<lambda>i. mat_at example_array (nat i) (if c < 4 then c else c + 1))
                                   (drop (nat t) ri)))
                 [0..<slice_index (mat_cols example_array - 1) 7])"
proof -
  have h1: "files world_cached cached_default = Some (NpyGz example_array)"
    by (simp add: world_cached_def)
  have h2: "6 \<le> mat_cols example_array" by (simp add: example_array_def)
  have p1: "snd (load_data_sgd world_cached 5 3 cached_default)
     = Inr ([(''fea0'', [0, 10, 0, 10]), (''fea1'', [1, 11, 1, 11]), (''fea2'', [2, 12, 2, 12])],
            [(''fea0'', [0]), (''fea1'', [1]), (''fea2'', [2])],
            [(''fea0'', [5, 15, 5, 15])], [(''fea0'', [5])])"
    by (simp add: loader_eval)
  have p2: "snd (load_data_ridge example_gen world_cached 5 7 cached_default)
     = Inr ([(''fea0'', [0, 10, 0, 10]), (''fea1'', [1, 11, 1, 11]), (''fea2'', [2, 12, 2, 12]),
             (''fea3'', [3, 13, 3, 13]), (''fea4'', [5, 15, 5, 15]), (''fea5'', [6, 16, 6, 16])],
            [(''fea0'', [0]), (''fea1'', [1]), (''fea2'', [2]), (''fea3'', [3]), (''fea4'', [5]),
             (''fea5'', [6])],
            [(''fea0'', [5, 15, 5, 15])], [(''fea0'', [5])])"
    by (simp add: loader_eval)
  have c1: "\<exists>ri t. randint (rng_state world_cached) 0 (int (mat_rows example_array) - 1) 5 = Inr ri
         \<and> train_rows 5 = Inr t
         \<and> [(''fea0'', [5, 15, 5, 15])]
             = [(''fea0'', map (\<lambda>i. mat_at example_array (nat i) 5) (take (nat t) ri))]
         \<and> [(''fea0'', [5])]
             = [(''fea0'', map (\<lambda>i. mat_at example_array (nat i) 5) (drop (nat t) ri))]"
    using mortgage_label_is_column_5 [OF h1 h2, THEN conjunct1, rule_format, OF p1]
    by (elim exE conjE) (intro exI conjI; assumption)
  have c2: "\<exists>ri t. [(''fea0'', [0]), (''fea1'', [1]), (''fea2'', [2]), (''fea3'', [3]), (''fea4'', [5]),
               (''fea5'', [6])]
             = map (\<lambda>c. (fea c, map (\<lambda>i. mat_at example_array (nat i) (if c < 4 then c else c + 1))
                                   (drop (nat t) ri)))
                 [0..<slice_index (mat_cols example_array - 1) 7]"
    using mortgage_label_is_column_5 [OF h1 h2, THEN conjunct2, rule_format, OF p2]
    by (elim exE conjE) (intro exI; assumption)
  show ?thesis by (intro conjI h1 h2 p1 p2 c1 c2)
qed

text \<open>
  C10. In the ridge notebook, when the cached file is absent, \<open>load_data\<close> does not read
  the global random generator, nor any file: two calls with the same \<open>nrows\<close> and \<open>ncols\<close>
  in two states of the world return the same tables (or raise the same exception) and
  print the same. The seeded generator is a function of its arguments.
\<close>

theorem ridge_load_data_deterministic:
  assumes "\<not> path_exists w1 cached" and "\<not> path_exists w2 cached"
  shows "load_data_ridge gen w1 nrows ncols cached = load_data_ridge gen w2 nrows ncols cached"
proof -
  have eq: "dataset_ridge gen w1 nrows ncols cached = dataset_ridge gen w2 nrows ncols cached"
    using assms by (simp add: dataset_ridge_def)
  show ?thesis unfolding load_data_ridge_def eq by (rule refl)
qed

theorem ridge_load_data_deterministic_witness:
  "\<not> path_exists world_empty cached_default
   \<and> \<not> path_exists (world_empty\<lparr>rng_state := (\<lambda>i. 7)\<rparr>) cached_default
   \<and> rng_state world_empty 0 \<noteq> rng_state (world_empty\<lparr>rng_state := (\<lambda>i. 7)\<rparr>) 0
   \<and> load_data_ridge example_gen world_empty 5 2 cached_default
       = load_data_ridge example_gen (world_empty\<lparr>rng_state := (\<lambda>i. 7)\<rparr>) 5 2 cached_default
   \<and> snd (load_data_ridge example_gen world_empty 5 2 cached_default)
       = Inr ([(''fea0'', [0, 1, 2, 3]), (''fea1'', [1, 2, 3, 4])],
              [(''fea0'', [4]), (''fea1'', [5])],
              [(''fea0'', [0, 1, 2, 3])], [(''fea0'', [4])])"
proof -
  have h1: "\<not> path_exists world_empty cached_default"
    by (simp add: path_exists_def world_empty_def)
  have h2: "\<not> path_exists (world_empty\<lparr>rng_state := (\<lambda>i. 7)\<rparr>) cached_default"
    by (simp add: path_exists_def world_empty_def)
  have d: "rng_state world_empty 0 \<noteq> rng_state (world_empty\<lparr>rng_state := (\<lambda>i. 7)\<rparr>) 0"
    by (simp add: world_empty_def)
  have v: "snd (load_data_ridge example_gen world_empty 5 2 cached_default)
       = Inr ([(''fea0'', [0, 1, 2, 3]), (''fea1'', [1, 2, 3, 4])],
              [(''fea0'', [4]), (''fea1'', [5])],
              [(''fea0'', [0, 1, 2, 3])], [(''fea0'', [4])])"
    by (simp add: loader_eval)
  show ?thesis
    using ridge_load_data_deterministic [OF h1 h2, of example_gen 5 2] h1 h2 d v
    by (intro conjI)
qed

lemma frame_of_column_matrix:
  assumes "b \<le> length ys"
  shows "frame_of (column_matrix ys) a b = [(''fea0'', map (\<lambda>r. real_of_int (ys ! r)) [a..<b])]"
  by (simp add: frame_of_def column_matrix_def column_def fea_0)

lemma rand_entry_range:
  assumes "rand g d0 d1 = Inr X"
  shows "0 \<le> mat_at X r c \<and> mat_at X r c < 1"
proof -
  have X: "mat_at X r c = real (g (r * nat d1 + c) mod 2 ^ 53) / 2 ^ 53"
    using assms by (auto simp: rand_def split: if_splits)
  have "g (r * nat d1 + c) mod 2 ^ 53 < 2 ^ 53" by simp
  then have "real (g (r * nat d1 + c) mod 2 ^ 53) < 2 ^ 53"
    by (metis of_nat_less_iff of_nat_numeral of_nat_power)
  then show ?thesis unfolding X by simp
qed

lemma frame_of_values:
  assumes "c \<in> set (frame_of X a b)" and "v \<in> set (snd c)"
  shows "\<exists>r i. v = mat_at X r i"
proof -
  from assms(1) obtain i where "c = (fea i, column X a b i)" by (auto simp: frame_of_def)
  then have "v \<in> set (map (\<lambda>r. mat_at X r i) [a..<b])" using assms(2) by (simp add: column_def)
  then show ?thesis by auto
qed


lemma load_data_sgd_random:
  assumes ne: "\<not> path_exists w cached"
    and r: "snd (load_data_sgd w nrows ncols cached) = Inr (Xtr, Xte, ytr, yte)"
  shows "(\<exists>X ys t. rand (rng_state w) nrows ncols = Inr X
         \<and> randint (advance (rng_state w) (nat nrows * nat ncols)) 0 10 nrows = Inr ys
         \<and> train_rows nrows = Inr t
         \<and> Xtr = frame_of X 0 (nat t) \<and> Xte = frame_of X (nat t) (nat nrows)
         \<and> ytr = [(''fea0'', map real_of_int (take (nat t) ys))]
         \<and> yte = [(''fea0'', map real_of_int (drop (nat t) ys))]
         \<and> (\<forall>c \<in> set (Xtr @ Xte). \<forall>v \<in> set (snd c). 0 \<le> v \<and> v < 1)
         \<and> (\<forall>v \<in> set ys. 0 \<le> v \<and> v < 10))"
proof -
  from load_data_sgd_split [OF r] obtain X y t where
    d: "snd (dataset_sgd w nrows ncols cached) = Inr (X, y)" and t: "train_rows nrows = Inr t"
    and tb: "0 \<le> t" "t \<le> nrows"
    and fr: "Xtr = frame_of X 0 (nat t)" "Xte = frame_of X (nat t) (nat nrows)"
      "ytr = frame_of y 0 (nat t)" "yte = frame_of y (nat t) (nat nrows)"
    by blast
  obtain ys where rX: "rand (rng_state w) nrows ncols = Inr X"
    and rys: "randint (advance (rng_state w) (mat_rows X * mat_cols X)) 0 10 nrows = Inr ys"
    and y: "y = column_matrix ys"
    using d ne by (auto simp: dataset_sgd_def split: sum.splits)
  have sh: "mat_rows X = nat nrows" "mat_cols X = nat ncols"
    using rX by (auto simp: rand_def split: if_splits)
  have rys': "randint (advance (rng_state w) (nat nrows * nat ncols)) 0 10 nrows = Inr ys"
    using rys sh by simp
  from randint_Inr [OF rys] have lys: "length ys = nat nrows" by simp
  have tn: "nat t \<le> length ys" using tb lys by simp
  have y1: "ytr = [(''fea0'', map real_of_int (take (nat t) ys))]"
    using frame_of_column_matrix [OF tn, of 0] map_nth_take [OF tn, of real_of_int] fr(3) y
    by simp
  have "frame_of (column_matrix ys) (nat t) (length ys)
          = [(''fea0'', map (\<lambda>r. real_of_int (ys ! r)) [nat t..<length ys])]"
    by (rule frame_of_column_matrix) simp
  then have y2: "yte = [(''fea0'', map real_of_int (drop (nat t) ys))]"
    using map_nth_drop [of real_of_int ys "nat t"] fr(4) y lys by simp
  have vX: "\<forall>c \<in> set (Xtr @ Xte). \<forall>v \<in> set (snd c). 0 \<le> v \<and> v < 1"
  proof (intro ballI)
    fix c v assume c: "c \<in> set (Xtr @ Xte)" and v: "v \<in> set (snd c)"
    from c fr have "c \<in> set (frame_of X 0 (nat t)) \<or> c \<in> set (frame_of X (nat t) (nat nrows))"
      by auto
    then obtain r i where "v = mat_at X r i" using frame_of_values v by blast
    then show "0 \<le> v \<and> v < 1" using rand_entry_range [OF rX] by simp
  qed
  have vy: "\<forall>v \<in> set ys. 0 \<le> v \<and> v < 10"
    using randint_in_range [OF rys] by blast
  show ?thesis using rX rys' t fr(1,2) y1 y2 vX vy by blast
qed

lemma load_data_ridge_random:
  assumes ne: "\<not> path_exists w cached"
    and r: "snd (load_data_ridge gen w nrows ncols cached) = Inr (Xtr', Xte', ytr', yte')"
  shows "(\<exists>X ys t. make_regression gen nrows ncols ncols 0 = Inr (X, Labels1D ys)
         \<and> train_rows nrows = Inr t
         \<and> Xtr' = frame_of X 0 (nat t) \<and> Xte' = frame_of X (nat t) (nat nrows)
         \<and> ytr' = [(''fea0'', take (nat t) ys)]
         \<and> yte' = [(''fea0'', drop (nat t) ys)])"
proof -
  from load_data_ridge_split [OF r] obtain X lab t where
    d: "snd (dataset_ridge gen w nrows ncols cached) = Inr (X, lab)" and t: "train_rows nrows = Inr t"
    and tb: "0 \<le> t" "t \<le> nrows" and lr: "label_rows lab = nat nrows"
    and fr: "Xtr' = frame_of X 0 (nat t)" "Xte' = frame_of X (nat t) (nat nrows)"
      "labels_frame lab 0 (nat t) = Inr ytr'" "labels_frame lab (nat t) (nat nrows) = Inr yte'"
    by blast
  have mk0: "make_regression gen nrows ncols ncols 0 = Inr (X, lab)"
    using d ne by (simp add: dataset_ridge_def)
  obtain ys where lab: "lab = Labels1D ys"
    using make_regression_Inr [OF mk0] labels_frame_Inr [OF fr(3)] by (auto split: if_splits)
  have mk: "make_regression gen nrows ncols ncols 0 = Inr (X, Labels1D ys)"
    using mk0 lab by simp
  have lys: "length ys = nat nrows" using lr lab by simp
  have y1: "ytr' = [(''fea0'', take (nat t) ys)]" using fr(3) lab by auto
  have y2: "yte' = [(''fea0'', drop (nat t) ys)]" using fr(4) lab lys by auto
  show ?thesis using mk t fr(1,2) y1 y2 by blast
qed

text \<open>
  C4 (as amended). When the cached file is absent, the ridge notebook takes its features
  and labels from sklearn's random-regression generator \<^verbatim>\<open>make_regression\<close>, seeded
  with 0. The SGD notebook does not: its features are uniform numbers in \<open>[0, 1)\<close> from
  \<^verbatim>\<open>np.random.rand\<close>, and its labels are integers in \<open>0..9\<close> that
  \<^verbatim>\<open>np.random.randint\<close> draws afterwards, whatever the features are.
\<close>

theorem synthetic_dataset_source:
  assumes "\<not> path_exists w cached"
  shows "(snd (load_data_sgd w nrows ncols cached) = Inr (Xtr, Xte, ytr, yte) \<longrightarrow>
      (\<exists>X ys t. rand (rng_state w) nrows ncols = Inr X
         \<and> randint (advance (rng_state w) (nat nrows * nat ncols)) 0 10 nrows = Inr ys
         \<and> train_rows nrows = Inr t
         \<and> Xtr = frame_of X 0 (nat t) \<and> Xte = frame_of X (nat t) (nat nrows)
         \<and> ytr = [(''fea0'', map real_of_int (take (nat t) ys))]
         \<and> yte = [(''fea0'', map real_of_int (drop (nat t) ys))]
         \<and> (\<forall>c \<in> set (Xtr @ Xte). \<forall>v \<in> set (snd c). 0 \<le> v \<and> v < 1)
         \<and> (\<forall>v \<in> set ys. 0 \<le> v \<and> v < 10)))
   \<and> (snd (load_data_ridge gen w nrows ncols cached) = Inr (Xtr', Xte', ytr', yte') \<longrightarrow>
      (\<exists>X ys t. make_regression gen nrows ncols ncols 0 = Inr (X, Labels1D ys)
         \<and> train_rows nrows = Inr t
         \<and> Xtr' = frame_of X 0 (nat t) \<and> Xte' = frame_of X (nat t) (nat nrows)
         \<and> ytr' = [(''fea0'', take (nat t) ys)]
         \<and> yte' = [(''fea0'', drop (nat t) ys)]))"
  using load_data_sgd_random [OF assms] load_data_ridge_random [OF assms] by blast


theorem synthetic_dataset_source_witness:
  "\<not> path_exists world_empty cached_default
   \<and> snd (load_data_sgd world_empty 5 1 cached_default)
       = Inr ([(''fea0'', [0, 0, 0, 0])], [(''fea0'', [0])],
              [(''fea0'', [5, 6, 7, 8])], [(''fea0'', [9])])
   \<and> snd (load_data_ridge example_gen world_empty 5 2 cached_default)
       = Inr ([(''fea0'', [0, 1, 2, 3]), (''fea1'', [1, 2, 3, 4])],
              [(''fea0'', [4]), (''fea1'', [5])],
              [(''fea0'', [0, 1, 2, 3])], [(''fea0'', [4])])
   \<and> (\<exists>ys t. randint (advance (rng_state world_empty) (nat 5 * nat 1)) 0 10 5 = Inr ys
         \<and> train_rows 5 = Inr t
         \<and> [(''fea0'', [5, 6, 7, 8])] = [(''fea0'', map real_of_int (take (nat t) ys))]
         \<and> (\<forall>v \<in> set ys. 0 \<le> v \<and> v < 10))
   \<and> (\<exists>X ys t. make_regression example_gen 5 2 2 0 = Inr (X, Labels1D ys)
         \<and> train_rows 5 = Inr t
         \<and> [(''fea0'', [0::real, 1, 2, 3])] = [(''fea0'', take (nat t) ys)])"
proof -
  have h: "\<not> path_exists world_empty cached_default"
    by (simp add: path_exists_def world_empty_def)
  have p1: "snd (load_data_sgd world_empty 5 1 cached_default)
       = Inr ([(''fea0'', [0, 0, 0, 0])], [(''fea0'', [0])],
              [(''fea0'', [5, 6, 7, 8])], [(''fea0'', [9])])"
    by (simp add: loader_eval)
  have p2: "snd (load_data_ridge example_gen world_empty 5 2 cached_default)
       = Inr ([(''fea0'', [0, 1, 2, 3]), (''fea1'', [1, 2, 3, 4])],
              [(''fea0'', [4]), (''fea1'', [5])],
              [(''fea0'', [0, 1, 2, 3])], [(''fea0'', [4])])"
    by (simp add: loader_eval)
  have c1: "\<exists>ys t. randint (advance (rng_state world_empty) (nat 5 * nat 1)) 0 10 5 = Inr ys
         \<and> train_rows 5 = Inr t
         \<and> [(''fea0'', [5, 6, 7, 8])] = [(''fea0'', map real_of_int (take (nat t) ys))]
         \<and> (\<forall>v \<in> set ys. 0 \<le> v \<and> v < 10)"
    using synthetic_dataset_source [OF h, THEN conjunct1, rule_format, OF p1]
    by (elim exE conjE) (intro exI conjI; assumption)
  have c2: "\<exists>X ys t. make_regression example_gen 5 2 2 0 = Inr (X, Labels1D ys)
         \<and> train_rows 5 = Inr t
         \<and> [(''fea0'', [0::real, 1, 2, 3])] = [(''fea0'', take (nat t) ys)]"
    using synthetic_dataset_source [OF h, THEN conjunct2, rule_format, OF p2]
    by (elim exE conjE) (intro exI conjI; assumption)
  show ?thesis by (intro conjI h p1 p2 c1 c2)
qed

text \<open>
  The claim as written fails for the SGD notebook: with the cached file absent, five
  rows and one column, a generator whose first five draws are zero gives five equal
  feature rows with the labels 5, 6, 7, 8 and 9, which are no linear function of the
  features.
\<close>

theorem sgd_random_data_counterexample:
  "\<not> path_exists world_empty cached_default
   \<and> snd (load_data_sgd world_empty 5 1 cached_default)
       = Inr ([(''fea0'', [0, 0, 0, 0])], [(''fea0'', [0])],
              [(''fea0'', [5, 6, 7, 8])], [(''fea0'', [9])])
   \<and> \<not> (\<exists>a b :: real. \<forall>i < 4. [5, 6, 7, 8] ! i = a * [0, 0, 0, 0] ! i + b)"
proof -
  have h: "\<not> path_exists world_empty cached_default"
    by (simp add: path_exists_def world_empty_def)
  have p1: "snd (load_data_sgd world_empty 5 1 cached_default)
       = Inr ([(''fea0'', [0, 0, 0, 0])], [(''fea0'', [0])],
              [(''fea0'', [5, 6, 7, 8])], [(''fea0'', [9])])"
    by (simp add: loader_eval)
  have n: "\<not> (\<exists>a b :: real. \<forall>i < 4. [5, 6, 7, 8] ! i = a * [0, 0, 0, 0] ! i + b)"
  proof
    assume "\<exists>a b :: real. \<forall>i < 4. [5, 6, 7, 8] ! i = a * [0, 0, 0, 0] ! i + b"
    then obtain a b :: real where ab: "\<forall>i < 4. [5, 6, 7, 8] ! i = a * [0, 0, 0, 0] ! i + b"
      by blast
    have "(0::nat) < 4" and "(1::nat) < 4" by simp_all
    with ab have "[5, 6, 7, 8] ! 0 = a * [0, 0, 0, 0] ! 0 + b"
      and "[5, 6, 7, 8] ! 1 = a * [0, 0, 0, 0] ! 1 + b" by blast+
    then show False by simp
  qed
  show ?thesis by (intro conjI h p1 n)
qed


section \<open>Properties of the benchmark cells\<close>

text \<open>
  C1 (as amended). In each notebook every hyperparameter that is passed to both
  constructors has the same value in both calls: \<open>fit_intercept\<close>, \<open>normalize\<close> and
  \<open>alpha\<close> for ridge; \<open>learning_rate\<close>, \<open>eta0\<close>, \<open>tol\<close>, \<open>penalty\<close> and \<open>loss\<close> for SGD,
  where moreover \<open>max_iter\<close> of sklearn and \<open>epochs\<close> of cuML are both \<open>iterations\<close>, and
  \<open>fit_intercept = True\<close>, passed to sklearn only, is the default that the notebook
  lists for cuML. The remaining arguments go to cuML alone: \<open>solver = 'svd'\<close> for ridge,
  \<open>batch_size = 512\<close> for SGD.
\<close>

theorem passed_hyperparameters_agree:
  "(\<forall>p \<in> set (passed_to_both skridge_kwargs curidge_kwargs).
      map_of skridge_kwargs p = map_of curidge_kwargs p)
   \<and> passed_to_both skridge_kwargs curidge_kwargs = [''fit_intercept'', ''normalize'', ''alpha'']
   \<and> (\<forall>p \<in> set (passed_to_both sk_sgd_kwargs cu_sgd_kwargs).
      map_of sk_sgd_kwargs p = map_of cu_sgd_kwargs p)
   \<and> passed_to_both sk_sgd_kwargs cu_sgd_kwargs
       = [''learning_rate'', ''eta0'', ''tol'', ''penalty'', ''loss'']
   \<and> map_of sk_sgd_kwargs ''max_iter'' = map_of cu_sgd_kwargs ''epochs''
   \<and> map_of sk_sgd_kwargs ''fit_intercept''
       = effective cu_sgd_kwargs cuml_sgd_defaults ''fit_intercept''
   \<and> filter (\<lambda>p. p \<notin> set (map fst skridge_kwargs)) (map fst curidge_kwargs) = [''solver'']
   \<and> map_of curidge_kwargs ''solver'' = Some (PyStr ''svd'')
   \<and> filter (\<lambda>p. p \<notin> set (map fst sk_sgd_kwargs)) (map fst cu_sgd_kwargs)
       = [''epochs'', ''batch_size'']
   \<and> map_of cu_sgd_kwargs ''batch_size'' = Some (PyInt 512)"
  by (simp add: sk_sgd_kwargs_def cu_sgd_kwargs_def skridge_kwargs_def curidge_kwargs_def
      learning_rate_def penalty_def loss_def iterations_def
      cuml_sgd_defaults_def effective_def passed_to_both_def)

theorem passed_hyperparameters_agree_witness:
  "''alpha'' \<in> set (passed_to_both skridge_kwargs curidge_kwargs)
   \<and> map_of skridge_kwargs ''alpha'' = map_of curidge_kwargs ''alpha''
   \<and> map_of curidge_kwargs ''alpha'' = Some (PyFloat (1 / 10))
   \<and> ''eta0'' \<in> set (passed_to_both sk_sgd_kwargs cu_sgd_kwargs)
   \<and> map_of sk_sgd_kwargs ''eta0'' = map_of cu_sgd_kwargs ''eta0''
   \<and> map_of cu_sgd_kwargs ''eta0'' = Some (PyFloat (7 / 100))"
proof -
  have a: "''alpha'' \<in> set (passed_to_both skridge_kwargs curidge_kwargs)"
    by (simp add: sk_sgd_kwargs_def cu_sgd_kwargs_def skridge_kwargs_def curidge_kwargs_def
      learning_rate_def penalty_def loss_def iterations_def passed_to_both_def)
  have b: "''eta0'' \<in> set (passed_to_both sk_sgd_kwargs cu_sgd_kwargs)"
    by (simp add: sk_sgd_kwargs_def cu_sgd_kwargs_def skridge_kwargs_def curidge_kwargs_def
      learning_rate_def penalty_def loss_def iterations_def passed_to_both_def)
  have c: "map_of curidge_kwargs ''alpha'' = Some (PyFloat (1 / 10))"
    by (simp add: sk_sgd_kwargs_def cu_sgd_kwargs_def skridge_kwargs_def curidge_kwargs_def
      learning_rate_def penalty_def loss_def iterations_def passed_to_both_def)
  have d: "map_of cu_sgd_kwargs ''eta0'' = Some (PyFloat (7 / 100))"
    by (simp add: sk_sgd_kwargs_def cu_sgd_kwargs_def skridge_kwargs_def curidge_kwargs_def
      learning_rate_def penalty_def loss_def iterations_def passed_to_both_def)
  from passed_hyperparameters_agree a b
  have "map_of skridge_kwargs ''alpha'' = map_of curidge_kwargs ''alpha''"
    and "map_of sk_sgd_kwargs ''eta0'' = map_of cu_sgd_kwargs ''eta0''"
    by blast+
  then show ?thesis using a b c d by (intro conjI)
qed

text \<open>
  The claim as written fails for \<open>solver\<close> in the ridge notebook, a parameter of both
  constructors: cuML is given \<open>'svd'\<close>, sklearn is given nothing and keeps its default,
  which is \<open>'auto'\<close>.
\<close>

theorem ridge_solver_counterexample:
  "map_of skridge_kwargs ''solver'' = None
   \<and> effective skridge_kwargs sklearn_ridge_defaults ''solver'' = Some (PyStr ''auto'')
   \<and> effective curidge_kwargs cuml_ridge_defaults ''solver'' = Some (PyStr ''svd'')
   \<and> effective skridge_kwargs sklearn_ridge_defaults ''solver''
       \<noteq> effective curidge_kwargs cuml_ridge_defaults ''solver''"
  by (simp add: skridge_kwargs_def curidge_kwargs_def cuml_ridge_defaults_def
      sklearn_ridge_defaults_def effective_def)











end
